theory Spec2Isabelle
  imports Complex_Main
begin

text \<open>
  A shallow embedding of Lumina, a retrieval-augmented chat service: the chunker of
  \<^verbatim>\<open>document_utils.py\<close>, the index wrapper of \<^verbatim>\<open>faiss_utils.py\<close>, the model client of
  \<^verbatim>\<open>ollama_utils.py\<close> and the request handlers of \<^verbatim>\<open>app.py\<close>. The definitions come
  first, file by file; the lemmas and the theorems on the claims of the specification
  follow. An exception is a value \<open>Inl e\<close> of a sum type; what lies outside the
  repository (the PDF reader, the embedding model, the HTTP service, the JSON and
  regular-expression libraries) is a parameter or is written out where a definition
  says so.
\<close>

section \<open>Python text and sequence primitives\<close>

text \<open>
  Python's \<^verbatim>\<open>str\<close> is modelled as \<^typ>\<open>string\<close>: one character per code point, over the
  code points below 256. \<open>is_space\<close> is \<^verbatim>\<open>str.isspace\<close> on that range.
\<close>

definition is_space :: "char \<Rightarrow> bool" where
  "is_space c = (of_char c \<in> {9, 10, 11, 12, 13, 28, 29, 30, 31, 32, 133, 160 :: nat})"

text \<open>\<^verbatim>\<open>s.strip()\<close>\<close>

definition py_strip :: "string \<Rightarrow> string" where
  "py_strip s = rev (dropWhile is_space (rev (dropWhile is_space s)))"

text \<open>
  \<^verbatim>\<open>s.split()\<close>: the maximal runs of non-whitespace characters, in order. The first
  argument of \<open>py_split_from\<close> is the run read so far.
\<close>

fun py_split_from :: "string \<Rightarrow> string \<Rightarrow> string list" where
  "py_split_from w [] = (if w = [] then [] else [w])"
| "py_split_from w (c # cs) =
     (if is_space c then (if w = [] then py_split_from [] cs else w # py_split_from [] cs)
      else py_split_from (w @ [c]) cs)"

definition py_split :: "string \<Rightarrow> string list" where
  "py_split s = py_split_from [] s"

text \<open>\<^verbatim>\<open>sep.join(xs)\<close>\<close>

fun py_join :: "string \<Rightarrow> string list \<Rightarrow> string" where
  "py_join sep [] = []"
| "py_join sep [x] = x"
| "py_join sep (x # y # ys) = x @ sep @ py_join sep (y # ys)"

text \<open>
  \<^verbatim>\<open>xs[start:stop]\<close>: a negative bound counts from the end, and every bound is clamped
  to the list.
\<close>

definition slice_bound :: "nat \<Rightarrow> int \<Rightarrow> nat" where
  "slice_bound n i = (if i < 0 then nat (max 0 (int n + i)) else min n (nat i))"

definition py_slice :: "'a list \<Rightarrow> int \<Rightarrow> int \<Rightarrow> 'a list" where
  "py_slice xs start stop =
     (let lo = slice_bound (length xs) start; hi = slice_bound (length xs) stop
      in take (hi - lo) (drop lo xs))"

text \<open>A word, as \<^verbatim>\<open>split()\<close> returns them: not empty, and free of whitespace.\<close>

definition is_word :: "string \<Rightarrow> bool" where
  "is_word w = (w \<noteq> [] \<and> list_all (\<lambda>c. \<not> is_space c) w)"

text \<open>The exceptions of the model, each with its message (\<^verbatim>\<open>str(e)\<close>).\<close>

datatype error =
    ValueError string
  | IndexError string
  | TypeError string
  | AttributeError string
  | LibraryError string

fun error_message :: "error \<Rightarrow> string" where
  "error_message (ValueError m) = m"
| "error_message (IndexError m) = m"
| "error_message (TypeError m) = m"
| "error_message (AttributeError m) = m"
| "error_message (LibraryError m) = m"

text \<open>\<^verbatim>\<open>xs[i]\<close>: a negative index counts from the end; out of range it raises.\<close>

definition py_index :: "'a list \<Rightarrow> int \<Rightarrow> error + 'a" where
  "py_index xs i =
     (if 0 \<le> i \<and> i < int (length xs) then Inr (xs ! nat i)
      else if i < 0 \<and> - int (length xs) \<le> i then Inr (xs ! nat (int (length xs) + i))
      else Inl (IndexError ''list index out of range''))"

text \<open>
  \<^verbatim>\<open>s.find(sub, start)\<close> for \<open>start \<ge> 0\<close>: the least index \<open>\<ge> start\<close> at which \<open>sub\<close>
  occurs, or \<open>-1\<close>. \<open>find_from sub s k\<close> searches \<open>s\<close>, whose first character has
  index \<open>k\<close> in the whole text.
\<close>

fun starts_with :: "'a list \<Rightarrow> 'a list \<Rightarrow> bool" where
  "starts_with [] s = True"
| "starts_with (p # ps) [] = False"
| "starts_with (p # ps) (c # cs) = (p = c \<and> starts_with ps cs)"

fun find_from :: "string \<Rightarrow> string \<Rightarrow> nat \<Rightarrow> int" where
  "find_from sub [] k = (if sub = [] then int k else -1)"
| "find_from sub (c # cs) k = (if starts_with sub (c # cs) then int k else find_from sub cs (Suc k))"

definition py_find :: "string \<Rightarrow> string \<Rightarrow> nat \<Rightarrow> int" where
  "py_find s sub start = (if start \<le> length s then find_from sub (drop start s) start else -1)"

text \<open>\<^verbatim>\<open>sub in s\<close>\<close>

definition py_contains :: "string \<Rightarrow> string \<Rightarrow> bool" where
  "py_contains sub s = (py_find s sub 0 \<noteq> -1)"

text \<open>\<^verbatim>\<open>s.replace(old, new)\<close> for a one-character \<open>old\<close>.\<close>

definition py_replace_char :: "char \<Rightarrow> string \<Rightarrow> string \<Rightarrow> string" where
  "py_replace_char old new s = concat (map (\<lambda>c. if c = old then new else [c]) s)"

text \<open>\<^verbatim>\<open>str(n)\<close> of a natural number, in decimal.\<close>

fun digits_of :: "nat \<Rightarrow> nat \<Rightarrow> string" where
  "digits_of 0 n = []"
| "digits_of (Suc fuel) n =
     (if n < 10 then [char_of (48 + n)]
      else digits_of fuel (n div 10) @ [char_of (48 + n mod 10)])"

definition str_nat :: "nat \<Rightarrow> string" where
  "str_nat n = digits_of (Suc n) n"

section \<open>Python values\<close>

text \<open>
  The values that JSON text parses to. A float is the exact value of its decimal
  literal (rounding, overflow and underflow are outside the model), or one of the three
  constants the JSON module also reads. A dictionary lists its items in insertion order,
  each key once.
\<close>

datatype pyfloat = Finite rat | NaN | PosInf | NegInf

datatype pyval =
    PNone
  | PBool bool
  | PInt int
  | PFloat pyfloat
  | PStr string
  | PList "pyval list"
  | PDict "(string \<times> pyval) list"

text \<open>Truth value testing: \<^verbatim>\<open>bool(v)\<close>.\<close>

fun py_truthy :: "pyval \<Rightarrow> bool" where
  "py_truthy PNone = False"
| "py_truthy (PBool b) = b"
| "py_truthy (PInt i) = (i \<noteq> 0)"
| "py_truthy (PFloat f) = (f \<noteq> Finite 0)"
| "py_truthy (PStr s) = (s \<noteq> [])"
| "py_truthy (PList xs) = (xs \<noteq> [])"
| "py_truthy (PDict kvs) = (kvs \<noteq> [])"

text \<open>\<^verbatim>\<open>type(v).__name__\<close>\<close>

fun py_type_name :: "pyval \<Rightarrow> string" where
  "py_type_name PNone = ''NoneType''"
| "py_type_name (PBool b) = ''bool''"
| "py_type_name (PInt i) = ''int''"
| "py_type_name (PFloat f) = ''float''"
| "py_type_name (PStr s) = ''str''"
| "py_type_name (PList xs) = ''list''"
| "py_type_name (PDict kvs) = ''dict''"

text \<open>\<^verbatim>\<open>d[k] = v\<close> on the items of a dictionary: a key keeps its place.\<close>

fun dict_set :: "(string \<times> pyval) list \<Rightarrow> string \<Rightarrow> pyval \<Rightarrow> (string \<times> pyval) list" where
  "dict_set [] k v = [(k, v)]"
| "dict_set ((k', v') # kvs) k v = (if k' = k then (k, v) # kvs else (k', v') # dict_set kvs k v)"

text \<open>
  The exception of \<^verbatim>\<open>v.attr\<close> on a value that has no such attribute.
\<close>

definition no_attribute :: "pyval \<Rightarrow> string \<Rightarrow> error" where
  "no_attribute v attr =
     AttributeError ([CHR 0x27] @ py_type_name v @ [CHR 0x27] @ '' object has no attribute ''
       @ [CHR 0x27] @ attr @ [CHR 0x27])"

text \<open>\<^verbatim>\<open>v.get(key, default)\<close>: only a dictionary has \<^verbatim>\<open>get\<close>.\<close>

definition py_get :: "pyval \<Rightarrow> string \<Rightarrow> pyval \<Rightarrow> error + pyval" where
  "py_get v key dflt =
     (case v of
        PDict kvs \<Rightarrow> Inr (case map_of kvs key of Some x \<Rightarrow> x | None \<Rightarrow> dflt)
      | _ \<Rightarrow> Inl (no_attribute v ''get''))"

text \<open>
  \<^verbatim>\<open>str(v)\<close>: a string is itself; the text of any other value is the library's
  \<^verbatim>\<open>repr\<close>, a parameter here.
\<close>

definition py_str :: "(pyval \<Rightarrow> string) \<Rightarrow> pyval \<Rightarrow> string" where
  "py_str repr v = (case v of PStr s \<Rightarrow> s | _ \<Rightarrow> repr v)"

section \<open>The chunker (document\_utils.py)\<close>

text \<open>
  The step of the window, line 41 of \<^verbatim>\<open>pdf_to_chunks\<close>:
  \<^verbatim>\<open>step = chunk_size - overlap if chunk_size > overlap else chunk_size\<close>
\<close>

definition chunk_step :: "int \<Rightarrow> int \<Rightarrow> int" where
  "chunk_step chunk_size overlap = (if chunk_size > overlap then chunk_size - overlap else chunk_size)"

text \<open>One run of the loop body up to the append (lines 45 to 50).\<close>

definition chunk_body :: "string list \<Rightarrow> int \<Rightarrow> int \<Rightarrow> string list \<Rightarrow> string list" where
  "chunk_body words chunk_size i chunks =
     (let chunk_words = py_slice words i (i + chunk_size);
          chunk_text = py_join '' '' chunk_words
      in if py_strip chunk_text \<noteq> [] then chunks @ [chunk_text] else chunks)"

text \<open>
  The \<^verbatim>\<open>while i < len(words)\<close> loop (lines 43 to 56). A run that never leaves the loop is
  the value \<open>None\<close>.
\<close>

partial_function (option) chunk_loop ::
  "string list \<Rightarrow> int \<Rightarrow> int \<Rightarrow> int \<Rightarrow> string list \<Rightarrow> string list option" where
  "chunk_loop words chunk_size step i chunks =
     (if i < int (length words) then
        (let chunks' = chunk_body words chunk_size i chunks;
             i' = i + step
         in if step \<le> 0 then Some chunks' else chunk_loop words chunk_size step i' chunks')
      else Some chunks)"

text \<open>Lines 39 to 56: the chunks of a word list.\<close>

definition chunk_words :: "string list \<Rightarrow> int \<Rightarrow> int \<Rightarrow> string list option" where
  "chunk_words words chunk_size overlap =
     chunk_loop words chunk_size (chunk_step chunk_size overlap) 0 []"

text \<open>
  \<^verbatim>\<open>pdf_to_chunks\<close>. The PDF reader is outside the repository: its outcome, the text of
  each page or the exception it raised, is the argument \<open>doc\<close>. The result is \<open>None\<close>
  when the call does not return, \<open>Some (Inl e)\<close> when it raises \<open>e\<close>.
\<close>

definition pdf_to_chunks ::
  "error + string list \<Rightarrow> int \<Rightarrow> int \<Rightarrow> (error + string list) option" where
  "pdf_to_chunks doc chunk_size overlap =
     (case doc of
        Inl e \<Rightarrow> Some (Inl e)
      | Inr pages \<Rightarrow>
          (let full_text = filter (\<lambda>page_text. py_strip page_text \<noteq> []) pages
           in if full_text = [] then Some (Inl (ValueError ''No text found in PDF''))
              else (let combined_text = py_join '' '' full_text;
                        words = py_split combined_text
                    in map_option Inr (chunk_words words chunk_size overlap))))"

text \<open>The window of chunk number \<open>j\<close>, as the slice the loop takes.\<close>

definition window :: "string list \<Rightarrow> int \<Rightarrow> int \<Rightarrow> nat \<Rightarrow> string list" where
  "window words chunk_size step j = py_slice words (int j * step) (int j * step + chunk_size)"

text \<open>The number of runs of the loop body from index \<open>i\<close> on, for a positive step.\<close>

definition runs_from :: "nat \<Rightarrow> int \<Rightarrow> int \<Rightarrow> nat" where
  "runs_from n step i = nat ((int n - i + step - 1) div step)"

text \<open>The text of the chunk taken at index \<open>i + j * step\<close>.\<close>

definition chunk_at :: "string list \<Rightarrow> int \<Rightarrow> int \<Rightarrow> int \<Rightarrow> nat \<Rightarrow> string" where
  "chunk_at words chunk_size step i j =
     py_join '' '' (py_slice words (i + int j * step) (i + int j * step + chunk_size))"

section \<open>The JSON reader (json.loads)\<close>

text \<open>
  \<^verbatim>\<open>json.loads\<close> is Python's library, not the repository's. The functions of the
  repository that call it take it as a parameter \<open>loads\<close>, of type
  \<^typ>\<open>string \<Rightarrow> pyval option\<close> (\<open>None\<close> when it raises), so what is proved of them holds
  for the library as it is. \<open>json_loads\<close> below is the reader that the concrete
  examples run: the grammar the library's decoder reads (objects, arrays, strings with
  their escapes, numbers, \<^verbatim>\<open>null\<close>, \<^verbatim>\<open>true\<close>, \<^verbatim>\<open>false\<close>, \<^verbatim>\<open>NaN\<close>, \<^verbatim>\<open>Infinity\<close>), on the
  characters of the model. An escape \<^verbatim>\<open>\uXXXX\<close> at or above U+0100 names a character
  outside the model and is not read.
\<close>

definition json_ws :: "char \<Rightarrow> bool" where
  "json_ws c = (c = CHR '' '' \<or> c = CHR 0x09 \<or> c = CHR 0x0A \<or> c = CHR 0x0D)"

definition skip_ws :: "string \<Rightarrow> string" where
  "skip_ws s = dropWhile json_ws s"

definition is_digit :: "char \<Rightarrow> bool" where
  "is_digit c = (48 \<le> (of_char c :: nat) \<and> (of_char c :: nat) \<le> 57)"

definition digits_value :: "string \<Rightarrow> nat" where
  "digits_value ds = foldl (\<lambda>acc c. 10 * acc + (of_char c - 48)) 0 ds"

definition hex_value :: "char \<Rightarrow> nat option" where
  "hex_value c =
     (let n = (of_char c :: nat)
      in if 48 \<le> n \<and> n \<le> 57 then Some (n - 48)
         else if 65 \<le> n \<and> n \<le> 70 then Some (n - 55)
         else if 97 \<le> n \<and> n \<le> 102 then Some (n - 87)
         else None)"

text \<open>The four hexadecimal digits of a \<^verbatim>\<open>\u\<close> escape.\<close>

definition decode_u :: "string \<Rightarrow> char option" where
  "decode_u s =
     (case map hex_value (take 4 s) of
        [Some a, Some b, Some c, Some d] \<Rightarrow>
          (if a = 0 \<and> b = 0 then Some (char_of (16 * c + d)) else None)
      | _ \<Rightarrow> None)"

text \<open>The one-character escapes.\<close>

definition unescape :: "char \<Rightarrow> char option" where
  "unescape e =
     (if e = CHR 0x22 then Some (CHR 0x22)
      else if e = CHR 0x5C then Some (CHR 0x5C)
      else if e = CHR ''/'' then Some (CHR ''/'')
      else if e = CHR ''b'' then Some (CHR 0x08)
      else if e = CHR ''f'' then Some (CHR 0x0C)
      else if e = CHR ''n'' then Some (CHR 0x0A)
      else if e = CHR ''r'' then Some (CHR 0x0D)
      else if e = CHR ''t'' then Some (CHR 0x09)
      else None)"

text \<open>
  A string, read from after its opening quote: the text it stands for and what follows
  its closing quote. A control character inside it is an error.
\<close>

fun scan_string :: "string \<Rightarrow> (string \<times> string) option" where
  "scan_string [] = None"
| "scan_string (c # cs) =
     (if c = CHR 0x22 then Some ([], cs)
      else if c = CHR 0x5C then
        (case cs of
           [] \<Rightarrow> None
         | e # r \<Rightarrow>
             if e = CHR ''u'' then
               (case decode_u r of
                  None \<Rightarrow> None
                | Some ch \<Rightarrow> map_option (\<lambda>(s, t). (ch # s, t)) (scan_string (drop 4 r)))
             else
               (case unescape e of
                  None \<Rightarrow> None
                | Some ch \<Rightarrow> map_option (\<lambda>(s, t). (ch # s, t)) (scan_string r)))
      else if (of_char c :: nat) < 32 then None
      else map_option (\<lambda>(s, t). (c # s, t)) (scan_string cs))"

text \<open>
  A number, by the decoder's pattern
  \<^verbatim>\<open>(-?(?:0|[1-9][0-9]*))(\.[0-9]+)?([eE][-+]?[0-9]+)?\<close>: an integer when it has neither
  fraction nor exponent, a float otherwise.
\<close>

definition scan_int_part :: "string \<Rightarrow> (string \<times> string) option" where
  "scan_int_part s =
     (case s of
        [] \<Rightarrow> None
      | c # cs \<Rightarrow>
          if c = CHR ''0'' then Some (''0'', cs)
          else if is_digit c then Some (takeWhile is_digit s, dropWhile is_digit s)
          else None)"

definition scan_frac :: "string \<Rightarrow> (string \<times> string) option" where
  "scan_frac s =
     (case s of
        c # d # cs \<Rightarrow>
          if c = CHR ''.'' \<and> is_digit d
          then Some (takeWhile is_digit (d # cs), dropWhile is_digit (d # cs))
          else None
      | _ \<Rightarrow> None)"

definition scan_exp :: "string \<Rightarrow> (int \<times> string) option" where
  "scan_exp s =
     (case s of
        [] \<Rightarrow> None
      | e # r \<Rightarrow>
          if e = CHR ''e'' \<or> e = CHR ''E'' then
            (let neg = (r \<noteq> [] \<and> hd r = CHR ''-'');
                 r' = (if r \<noteq> [] \<and> (hd r = CHR ''-'' \<or> hd r = CHR ''+'') then tl r else r)
             in if r' \<noteq> [] \<and> is_digit (hd r')
                then Some ((if neg then - int (digits_value (takeWhile is_digit r'))
                            else int (digits_value (takeWhile is_digit r'))),
                           dropWhile is_digit r')
                else None)
          else None)"

definition float_value :: "bool \<Rightarrow> string \<Rightarrow> string \<Rightarrow> int \<Rightarrow> rat" where
  "float_value neg ip fp ex =
     (let m = of_nat (digits_value ip) + of_nat (digits_value fp) / 10 ^ length fp;
          v = (if 0 \<le> ex then m * 10 ^ nat ex else m / 10 ^ nat (- ex))
      in if neg then - v else v)"

definition scan_number :: "string \<Rightarrow> (pyval \<times> string) option" where
  "scan_number s =
     (let neg = (s \<noteq> [] \<and> hd s = CHR ''-'');
          s1 = (if neg then tl s else s)
      in case scan_int_part s1 of
           None \<Rightarrow> None
         | Some (ip, r1) \<Rightarrow>
             (let fr = scan_frac r1;
                  fp = (case fr of None \<Rightarrow> [] | Some (ds, _) \<Rightarrow> ds);
                  r2 = (case fr of None \<Rightarrow> r1 | Some (_, r) \<Rightarrow> r);
                  ex = scan_exp r2;
                  r3 = (case ex of None \<Rightarrow> r2 | Some (_, r) \<Rightarrow> r)
              in if fr = None \<and> ex = None
                 then Some (PInt (if neg then - int (digits_value ip) else int (digits_value ip)), r1)
                 else Some (PFloat (Finite (float_value neg ip fp
                        (case ex of None \<Rightarrow> 0 | Some (e, _) \<Rightarrow> e))), r3)))"

text \<open>
  One value, read from the start of the text, with its rest. The first argument bounds
  the nesting and the number of items read; \<open>json_loads\<close> gives enough of it for the
  whole text. \<open>scan_elems\<close> reads the items of an array from its first item on,
  \<open>scan_pairs\<close> the items of an object from after the opening quote of a key.
\<close>

fun scan_once :: "nat \<Rightarrow> string \<Rightarrow> (pyval \<times> string) option"
  and scan_elems :: "nat \<Rightarrow> string \<Rightarrow> pyval list \<Rightarrow> (pyval list \<times> string) option"
  and scan_pairs :: "nat \<Rightarrow> string \<Rightarrow> (string \<times> pyval) list \<Rightarrow> ((string \<times> pyval) list \<times> string) option"
where
  "scan_once 0 s = None"
| "scan_once (Suc n) [] = None"
| "scan_once (Suc n) (c # cs) =
     (if c = CHR 0x22 then map_option (\<lambda>(t, r). (PStr t, r)) (scan_string cs)
      else if c = CHR ''{'' then
        (case skip_ws cs of
           [] \<Rightarrow> None
         | d # r \<Rightarrow>
             if d = CHR ''}'' then Some (PDict [], r)
             else if d = CHR 0x22 then map_option (\<lambda>(kvs, r'). (PDict kvs, r')) (scan_pairs n r [])
             else None)
      else if c = CHR ''['' then
        (case skip_ws cs of
           [] \<Rightarrow> None
         | d # r \<Rightarrow>
             if d = CHR '']'' then Some (PList [], r)
             else map_option (\<lambda>(xs, r'). (PList xs, r')) (scan_elems n (d # r) []))
      else if c = CHR ''n'' \<and> take 4 (c # cs) = ''null'' then Some (PNone, drop 3 cs)
      else if c = CHR ''t'' \<and> take 4 (c # cs) = ''true'' then Some (PBool True, drop 3 cs)
      else if c = CHR ''f'' \<and> take 5 (c # cs) = ''false'' then Some (PBool False, drop 4 cs)
      else (case scan_number (c # cs) of
              Some res \<Rightarrow> Some res
            | None \<Rightarrow>
                if c = CHR ''N'' \<and> take 3 (c # cs) = ''NaN'' then Some (PFloat NaN, drop 2 cs)
                else if c = CHR ''I'' \<and> take 8 (c # cs) = ''Infinity'' then Some (PFloat PosInf, drop 7 cs)
                else if c = CHR ''-'' \<and> take 9 (c # cs) = ''-Infinity'' then Some (PFloat NegInf, drop 8 cs)
                else None))"
| "scan_elems 0 s acc = None"
| "scan_elems (Suc n) s acc =
     (case scan_once n s of
        None \<Rightarrow> None
      | Some (v, r) \<Rightarrow>
          (case skip_ws r of
             [] \<Rightarrow> None
           | d # r' \<Rightarrow>
               if d = CHR '']'' then Some (acc @ [v], r')
               else if d = CHR '','' then scan_elems n (skip_ws r') (acc @ [v])
               else None))"
| "scan_pairs 0 s acc = None"
| "scan_pairs (Suc n) s acc =
     (case scan_string s of
        None \<Rightarrow> None
      | Some (key, r) \<Rightarrow>
          (case skip_ws r of
             [] \<Rightarrow> None
           | d # r1 \<Rightarrow>
               if d \<noteq> CHR '':'' then None
               else
                 (case scan_once n (skip_ws r1) of
                    None \<Rightarrow> None
                  | Some (v, r2) \<Rightarrow>
                      (case skip_ws r2 of
                         [] \<Rightarrow> None
                       | d' # r3 \<Rightarrow>
                           if d' = CHR ''}'' then Some (dict_set acc key v, r3)
                           else if d' = CHR '','' then
                             (case skip_ws r3 of
                                [] \<Rightarrow> None
                              | q # r4 \<Rightarrow>
                                  if q = CHR 0x22 then scan_pairs n r4 (dict_set acc key v)
                                  else None)
                           else None))))"

text \<open>
  \<^verbatim>\<open>json.loads(s)\<close>: one value, with JSON whitespace around it and nothing else;
  \<open>None\<close> when the decoder raises.
\<close>

definition json_loads :: "string \<Rightarrow> pyval option" where
  "json_loads s =
     (case scan_once (2 * length s + 2) (skip_ws s) of
        None \<Rightarrow> None
      | Some (v, r) \<Rightarrow> if skip_ws r = [] then Some v else None)"

section \<open>The vector index (faiss\_utils.py)\<close>

text \<open>
  The index library is outside the repository: \<^verbatim>\<open>faiss_utils.py\<close> calls its
  \<^verbatim>\<open>normalize_L2\<close>, \<^verbatim>\<open>IndexFlatIP\<close>, \<^verbatim>\<open>add\<close> and \<^verbatim>\<open>search\<close>, which are modelled here
  from the spec and from what the library documents. Vectors are over the reals: the
  rounding of 32-bit floats is outside the model. A matrix is the list of its rows.
\<close>

type_synonym vec = "real list"

definition inner_product :: "vec \<Rightarrow> vec \<Rightarrow> real" where
  "inner_product x y = sum_list (map2 (*) x y)"

definition norm_L2sqr :: "vec \<Rightarrow> real" where
  "norm_L2sqr x = inner_product x x"

text \<open>
  Modelled from the spec: \<^verbatim>\<open>faiss.normalize_L2\<close>, the \<^emph>\<open>L2 normalization\<close> of every row
  (each row divided by its Euclidean norm). A row of norm zero is left as it is.
\<close>

definition normalize_row :: "vec \<Rightarrow> vec" where
  "normalize_row x =
     (if 0 < norm_L2sqr x then map (\<lambda>v. v * (1 / sqrt (norm_L2sqr x))) x else x)"

definition normalize_L2 :: "vec list \<Rightarrow> vec list" where
  "normalize_L2 m = map normalize_row m"

text \<open>
  Modelled from the spec: \<^verbatim>\<open>faiss.IndexFlatIP(d)\<close> after \<^verbatim>\<open>add\<close>, the \<^emph>\<open>flat
  inner-product nearest-neighbor index\<close>: its dimension and the vectors stored, in the
  order they were added.
\<close>

record flat_index =
  dimension :: nat
  vectors :: "vec list"

text \<open>
  Modelled from the spec: \<^verbatim>\<open>index.search(q, k)\<close> for one query row, \<^emph>\<open>returning the k
  chunks whose embeddings have highest\<close> score. The scores are the inner products with the
  stored vectors; the labels are the positions of the stored vectors by decreasing
  score (equal scores here by increasing position; the library fixes no order among
  them), the first \<open>k\<close> of them. The spec is silent on an index of fewer than \<open>k\<close>
  vectors: the library then fills the row with \<open>-1\<close> up to \<open>k\<close> labels, the labels that
  line 286 of \<^verbatim>\<open>ask\<close> filters out.
\<close>

definition ip_scores :: "flat_index \<Rightarrow> vec \<Rightarrow> real list" where
  "ip_scores index q = map (inner_product q) (vectors index)"

definition ranked :: "flat_index \<Rightarrow> vec \<Rightarrow> nat list" where
  "ranked index q =
     sort_key (\<lambda>i. - (ip_scores index q ! i)) [0..<length (vectors index)]"

definition flat_ip_search :: "flat_index \<Rightarrow> vec \<Rightarrow> nat \<Rightarrow> int list" where
  "flat_ip_search index q k =
     map int (take k (ranked index q)) @ replicate (k - length (vectors index)) (- 1)"

text \<open>
  Modelled from the spec: the scores that \<^verbatim>\<open>index.search(q, k)\<close> returns beside the
  labels, for one query row: for each label the inner product of the query with the
  stored vector of that label, and beside a label \<open>-1\<close> the lowest 32-bit float, with
  which the library fills the row.
\<close>

definition no_score :: real where
  "no_score = - ((2 - 1 / 2 ^ 23) * 2 ^ 127)"

definition flat_ip_scores :: "flat_index \<Rightarrow> vec \<Rightarrow> nat \<Rightarrow> real list" where
  "flat_ip_scores index q k =
     map (\<lambda>i. ip_scores index q ! i) (take k (ranked index q)) @
     replicate (k - length (vectors index)) no_score"

text \<open>
  \<^verbatim>\<open>build_faiss_index(embeddings)\<close>. The array the embedder returns for no sentences has
  no second axis, so \<^verbatim>\<open>embeddings.shape[1]\<close> raises on it.
\<close>

definition build_faiss_index :: "vec list \<Rightarrow> error + flat_index" where
  "build_faiss_index embeddings =
     (case embeddings of
        [] \<Rightarrow> Inl (IndexError ''tuple index out of range'')
      | row # _ \<Rightarrow>
          Inr \<lparr>dimension = length row, vectors = normalize_L2 embeddings\<rparr>)"

text \<open>
  \<^verbatim>\<open>search_index(index, query_embedding, top_k)\<close>: the labels of the first query row,
  which it returns, and the pairs \<open>(idx, score)\<close> of the loop of lines 54 and 55, one for
  each line it prints (the line shows the score to three decimals). The library refuses
  \<open>k = 0\<close> and a query of another dimension with an assertion that has no message.
\<close>

definition search_index ::
  "flat_index \<Rightarrow> vec list \<Rightarrow> nat \<Rightarrow> error + int list \<times> (int \<times> real) list" where
  "search_index index query_embedding top_k =
     (case normalize_L2 query_embedding of
        [] \<Rightarrow> Inl (IndexError ''index 0 is out of bounds for axis 0 with size 0'')
      | q # _ \<Rightarrow>
          if length q \<noteq> dimension index \<or> top_k = 0
          then Inl (LibraryError [])
          else
            (let scores = flat_ip_scores index q top_k;
                 indices = flat_ip_search index q top_k
             in Inr (indices, zip indices scores)))"

text \<open>The cosine similarity of two vectors.\<close>

definition cosine_similarity :: "vec \<Rightarrow> vec \<Rightarrow> real" where
  "cosine_similarity x y = inner_product x y / (sqrt (norm_L2sqr x) * sqrt (norm_L2sqr y))"

text \<open>The zero vector, of any dimension.\<close>

definition is_zero_vec :: "vec \<Rightarrow> bool" where
  "is_zero_vec x = list_all (\<lambda>v. v = 0) x"

section \<open>The model client (ollama\_utils.py)\<close>

text \<open>\<^verbatim>\<open>a or b\<close>\<close>

definition py_or :: "pyval \<Rightarrow> pyval \<Rightarrow> pyval" where
  "py_or a b = (if py_truthy a then a else b)"

text \<open>\<^verbatim>\<open>d.get(key)\<close> on the items of a dictionary.\<close>

definition dict_get :: "(string \<times> pyval) list \<Rightarrow> string \<Rightarrow> pyval" where
  "dict_get kvs key = (case map_of kvs key of Some v \<Rightarrow> v | None \<Rightarrow> PNone)"

text \<open>
  \<^verbatim>\<open>query_ollama_api\<close>. The HTTP service is outside the repository: \<open>http\<close> is what the
  request gave, the JSON value of the response or the exception that the request, the
  status check or the decoding raised. The result is \<open>PNone\<close> for Python's \<^verbatim>\<open>None\<close>.
\<close>

definition query_ollama_api :: "(pyval \<Rightarrow> string) \<Rightarrow> error + pyval \<Rightarrow> pyval" where
  "query_ollama_api repr http =
     (case http of
        Inl e \<Rightarrow> PNone
      | Inr result \<Rightarrow>
          (case result of
             PDict kvs \<Rightarrow>
               py_or (dict_get kvs ''response'')
                 (py_or (dict_get kvs ''text'') (py_or (dict_get kvs ''output'') (PStr [])))
           | _ \<Rightarrow> PStr (py_str repr result)))"

text \<open>
  \<^verbatim>\<open>query_ollama_subprocess\<close>. \<open>proc\<close> is what running the command gave: its return code
  and its output, or the exception raised (a timeout among them).
\<close>

definition query_ollama_subprocess :: "error + int \<times> string \<Rightarrow> string option" where
  "query_ollama_subprocess proc =
     (case proc of
        Inl e \<Rightarrow> None
      | Inr (returncode, out) \<Rightarrow> if returncode \<noteq> 0 then None else Some (py_strip out))"

text \<open>The calls that \<^verbatim>\<open>query_ollama\<close> makes, in order.\<close>

datatype call = ApiCall | SubprocessCall

definition is_container :: "pyval \<Rightarrow> bool" where
  "is_container v = (case v of PDict _ \<Rightarrow> True | PList _ \<Rightarrow> True | _ \<Rightarrow> False)"

text \<open>
  \<^verbatim>\<open>query_ollama(prompt)\<close>: what it returns and the calls it made. \<open>api\<close> and \<open>proc\<close> are
  the behaviour of the service and of the command on a prompt; \<open>dumps\<close> is
  \<^verbatim>\<open>json.dumps\<close> (\<open>None\<close> when it raises) and \<open>repr\<close> the library's text of a value
  that is not a string.
\<close>

definition query_ollama ::
  "(pyval \<Rightarrow> string) \<Rightarrow> (pyval \<Rightarrow> string option) \<Rightarrow> (string \<Rightarrow> error + pyval) \<Rightarrow>
   (string \<Rightarrow> error + int \<times> string) \<Rightarrow> string \<Rightarrow> string option \<times> call list" where
  "query_ollama repr dumps api proc prompt =
     (let result = query_ollama_api repr (api prompt)
      in if py_truthy result then
           (if is_container result then
              (case dumps result of
                 Some s \<Rightarrow> (Some s, [ApiCall])
               | None \<Rightarrow> (Some (py_str repr result), [ApiCall]))
            else (Some (py_strip (py_str repr result)), [ApiCall]))
         else (query_ollama_subprocess (proc prompt), [ApiCall, SubprocessCall]))"

section \<open>The request handlers (app.py)\<close>

text \<open>An HTTP response: the status and the JSON body (\<^verbatim>\<open>jsonify\<close>).\<close>

record response =
  status :: nat
  body :: pyval

definition jsonify :: "nat \<Rightarrow> (string \<times> pyval) list \<Rightarrow> response" where
  "jsonify code items = \<lparr>status = code, body = PDict items\<rparr>"

text \<open>\<^verbatim>\<open>handle_exception\<close>, the handler of an exception that leaves a route.\<close>

definition handle_exception :: "error \<Rightarrow> response" where
  "handle_exception e = jsonify 500 [(''error'', PStr (''Server error: '' @ error_message e))]"

subsection \<open>\<^verbatim>\<open>greet\<close>\<close>

definition greet_prompt :: string where
  "greet_prompt = ''Say hello and ask the user to upload a PDF so you can help answer questions about it. Keep it short and friendly.''"

text \<open>
  The greeting of the \<^verbatim>\<open>except\<close> branch. Its first character is the emoji U+1F44B, which
  lies outside the characters of the model and stands here as its four UTF-8 bytes.
\<close>

definition default_greeting :: string where
  "default_greeting = [CHR 0xF0, CHR 0x9F, CHR 0x91, CHR 0x8B] @ '' Hi! Upload a PDF to get started.''"

text \<open>
  \<^verbatim>\<open>greet\<close>. \<open>client\<close> is the behaviour of \<^verbatim>\<open>query_ollama\<close> on a prompt: the string or
  \<^verbatim>\<open>None\<close> it returns, or the exception it raises.
\<close>

definition greet :: "(string \<Rightarrow> error + string option) \<Rightarrow> response" where
  "greet client =
     (case client greet_prompt of
        Inl e \<Rightarrow> jsonify 200 [(''greeting'', PStr default_greeting)]
      | Inr r \<Rightarrow>
          (let greeting = (case r of Some s \<Rightarrow> if s \<noteq> [] then s else [] | None \<Rightarrow> [])
           in jsonify 200 [(''greeting'', PStr greeting)]))"

subsection \<open>\<^verbatim>\<open>_extract_json_span\<close>\<close>

definition start_marker :: string where
  "start_marker = ''<<<JSON_START>>>''"

definition end_marker :: string where
  "end_marker = ''<<<JSON_END>>>''"

text \<open>
  The first stage: the text between the markers. \<open>None\<close> when the stage falls through to
  the next.
\<close>

definition json_between_markers ::
  "(string \<Rightarrow> pyval option) \<Rightarrow> string \<Rightarrow> (pyval \<times> int \<times> int) option" where
  "json_between_markers loads text =
     (if py_contains start_marker text \<and> py_contains end_marker text then
        (let s = py_find text start_marker 0 + int (length start_marker);
             e = py_find text end_marker (nat s)
         in if e > s then
              (let candidate = py_strip (py_slice text s e)
               in case loads candidate of
                    Some parsed \<Rightarrow> Some (parsed, s, e)
                  | None \<Rightarrow> None)
            else None)
      else None)"

text \<open>
  Matching without case, as \<^verbatim>\<open>re.IGNORECASE\<close> does on the letters of the two patterns:
  no character of the model other than the two cases of a letter matches it.
\<close>

definition to_lower :: "char \<Rightarrow> char" where
  "to_lower c =
     (if 65 \<le> (of_char c :: nat) \<and> (of_char c :: nat) \<le> 90 then char_of ((of_char c :: nat) + 32) else c)"

definition starts_with_ci :: "string \<Rightarrow> string \<Rightarrow> bool" where
  "starts_with_ci p s = starts_with p (map to_lower (take (length p) s))"

text \<open>
  The second stage: \<^verbatim>\<open>re.search(r"```json\s*(\{[\s\S]*?\})\s*```", text, re.IGNORECASE)\<close>.
  \<open>find_close s\<close> is the least index of a closing brace in \<open>s\<close> that whitespace and the
  closing fence follow: where the lazy \<^verbatim>\<open>[\s\S]*?\<close> stops. \<open>fence_at s\<close> is the span of
  group 1 of a match that starts at the start of \<open>s\<close>; \<open>fence_from s k\<close> is the span of
  group 1 of the leftmost match in \<open>s\<close>, whose first character has index \<open>k\<close> in the text.
\<close>

fun find_close :: "string \<Rightarrow> nat option" where
  "find_close [] = None"
| "find_close (c # cs) =
     (if c = CHR ''}'' \<and> starts_with ''```'' (dropWhile is_space cs) then Some 0
      else map_option Suc (find_close cs))"

definition fence_at :: "string \<Rightarrow> (nat \<times> nat) option" where
  "fence_at s =
     (if starts_with ''```'' s \<and> starts_with_ci ''json'' (drop 3 s) \<and> 7 \<le> length s then
        (let b = 7 + length (takeWhile is_space (drop 7 s))
         in case drop b s of
              [] \<Rightarrow> None
            | c # r \<Rightarrow>
                if c = CHR ''{'' then
                  (case find_close r of
                     None \<Rightarrow> None
                   | Some q \<Rightarrow> Some (b, b + q + 2))
                else None)
      else None)"

fun fence_from :: "string \<Rightarrow> nat \<Rightarrow> (nat \<times> nat) option" where
  "fence_from [] k = None"
| "fence_from (c # cs) k =
     (case fence_at (c # cs) of
        Some (a, b) \<Rightarrow> Some (k + a, k + b)
      | None \<Rightarrow> fence_from cs (Suc k))"

definition json_in_fence ::
  "(string \<Rightarrow> pyval option) \<Rightarrow> string \<Rightarrow> (pyval \<times> int \<times> int) option" where
  "json_in_fence loads text =
     (case fence_from text 0 of
        None \<Rightarrow> None
      | Some (start, end) \<Rightarrow>
          (let cand = py_slice text (int start) (int end)
           in case loads cand of
                Some parsed \<Rightarrow> Some (parsed, int start, int end)
              | None \<Rightarrow> None))"

text \<open>
  The third stage. \<open>brace_end s depth i\<close> walks \<open>s\<close>, whose first character has index \<open>i\<close>
  in the text, counting braces from \<open>depth\<close>: the index at which the count returns to
  zero, or \<open>-1\<close>.
\<close>

fun brace_end :: "string \<Rightarrow> int \<Rightarrow> nat \<Rightarrow> int" where
  "brace_end [] depth i = - 1"
| "brace_end (ch # cs) depth i =
     (if ch = CHR ''{'' then brace_end cs (depth + 1) (Suc i)
      else if ch = CHR ''}'' then
        (if depth - 1 = 0 then int i else brace_end cs (depth - 1) (Suc i))
      else brace_end cs depth (Suc i))"


definition json_by_braces :: "(string \<Rightarrow> pyval option) \<Rightarrow> string \<Rightarrow> pyval \<times> int \<times> int" where
  "json_by_braces loads text =
     (let first = py_find text ''{'' 0
      in if first = - 1 then (PNone, - 1, - 1)
         else
           (let end_idx = brace_end (drop (nat first) text) 0 (nat first)
            in if end_idx = - 1 then (PNone, - 1, - 1)
               else
                 (let candidate = py_slice text first (end_idx + 1)
                  in case loads candidate of
                       Some parsed \<Rightarrow> (parsed, first, end_idx + 1)
                     | None \<Rightarrow> (PNone, - 1, - 1))))"

text \<open>
  \<^verbatim>\<open>_extract_json_span(text)\<close> for a string \<open>text\<close>: the parsed value (\<open>PNone\<close> for
  \<^verbatim>\<open>None\<close>) and the span.
\<close>

definition extract_json_span :: "(string \<Rightarrow> pyval option) \<Rightarrow> string \<Rightarrow> pyval \<times> int \<times> int" where
  "extract_json_span loads text =
     (if text = [] then (PNone, - 1, - 1)
      else
        (case json_between_markers loads text of
           Some r \<Rightarrow> r
         | None \<Rightarrow>
             (case json_in_fence loads text of
                Some r \<Rightarrow> r
              | None \<Rightarrow> json_by_braces loads text)))"

subsection \<open>\<^verbatim>\<open>_extract_sources_from_text\<close>\<close>

text \<open>
  \<^verbatim>\<open>re.finditer(r"(Source\s*\d+\s*[:\-]\s*)([^\n\r]+)", text, re.IGNORECASE)\<close>.
  \<open>source_match_at s\<close> is a match that starts at the start of \<open>s\<close>: its group 2 and its
  length. The greedy \<^verbatim>\<open>\s*\<close> before group 2 takes all the whitespace when a character
  follows it; at the end of the text it gives characters back, down to the last one that
  is not a line break, for group 2 to start there.
\<close>

definition is_newline :: "char \<Rightarrow> bool" where
  "is_newline c = (c = CHR 0x0A \<or> c = CHR 0x0D)"

text \<open>The last position of \<open>ws\<close> that holds no line break, if there is one.\<close>

definition last_inline :: "string \<Rightarrow> nat option" where
  "last_inline ws =
     (case filter (\<lambda>k. \<not> is_newline (ws ! k)) (rev [0..<length ws]) of
        [] \<Rightarrow> None
      | k # _ \<Rightarrow> Some k)"

definition source_match_at :: "string \<Rightarrow> (string \<times> nat) option" where
  "source_match_at s =
     (if starts_with_ci ''source'' s \<and> 6 \<le> length s then
        (let r1 = drop 6 s;
             r2 = dropWhile is_space r1;
             ds = takeWhile is_digit r2;
             r3 = dropWhile is_digit r2;
             r4 = dropWhile is_space r3
         in if ds = [] then None
            else
              (case r4 of
                 [] \<Rightarrow> None
               | c # r5 \<Rightarrow>
                   if c = CHR '':'' \<or> c = CHR ''-'' then
                     (let ws = takeWhile is_space r5;
                          r6 = dropWhile is_space r5;
                          head = length s - length r5
                      in if r6 \<noteq> [] then
                           (let g = takeWhile (\<lambda>x. \<not> is_newline x) r6
                            in Some (g, head + length ws + length g))
                         else
                           (case last_inline ws of
                              None \<Rightarrow> None
                            | Some k \<Rightarrow>
                                (let g = takeWhile (\<lambda>x. \<not> is_newline x) (drop k ws)
                                 in Some (g, head + k + length g))))
                   else None))
      else None)"

text \<open>
  The matches from left to right, none overlapping another: the first argument is the
  number of characters still inside the last match.
\<close>

fun find_sources :: "nat \<Rightarrow> string \<Rightarrow> string list" where
  "find_sources inside [] = []"
| "find_sources (Suc k) (c # cs) = find_sources k cs"
| "find_sources 0 (c # cs) =
     (case source_match_at (c # cs) of
        Some (g, len) \<Rightarrow> g # find_sources (len - 1) cs
      | None \<Rightarrow> find_sources 0 cs)"

definition extract_sources_from_text :: "string \<Rightarrow> string list" where
  "extract_sources_from_text text = map (\<lambda>g. take 120 (py_strip g)) (find_sources 0 text)"

subsection \<open>\<^verbatim>\<open>_build_soft_prompt\<close>\<close>

definition system_prompt :: string where
  "system_prompt =
     ''You are Lumina, a helpful, conversational assistant specialized in helping users understand '' @
     ''uploaded documents. Use any provided document excerpts for factual support and cite them inline '' @
     ''as '' @ [CHR 0x27] @ ''Source 1'' @ [CHR 0x27] @ '', '' @ [CHR 0x27] @ ''Source 2'' @ [CHR 0x27] @
     '', etc., when you rely on them. You may also use your general knowledge '' @
     ''to elaborate, provide examples, or suggest follow-ups. If you are not sure about a fact, say so '' @
     ''and indicate uncertainty.\<newline>\<newline>'' @
     ''Answer naturally in plain language first (a few paragraphs, lists, examples). After your natural-language '' @
     ''answer, include a JSON object that summarizes the response in this exact shape:\<newline>'' @
     ''{\"answer\": \"<short summary sentence>\", \"sources\": [\"Source 1: ...\", ...]}\<newline>\<newline>'' @
     ''Place the JSON either inside a fenced block ```json ... ``` or between the markers <<<JSON_START>>> and <<<JSON_END>>>. '' @
     ''This makes it easier for the system to extract the JSON programmatically. Keep the JSON truthful to the explanation.\<newline>''"

text \<open>One line of the context block, for the chunk at position \<open>i\<close>.\<close>

definition ctx_line :: "nat \<Rightarrow> string \<Rightarrow> string" where
  "ctx_line i chunk =
     (let src_label = ''Source '' @ str_nat (i + 1);
          snippet = take 1500 (py_replace_char (CHR 0x0A) '' '' (py_strip chunk))
      in src_label @ '' ('' @ (if length chunk > 60 then py_strip (take 60 chunk) @ ''...'' else [])
           @ ''):\<newline>'' @ snippet)"

text \<open>
  One line of the history block. \<open>upper\<close> is the library's \<^verbatim>\<open>str.upper\<close>; only a string
  has it.
\<close>

definition history_line :: "(pyval \<Rightarrow> string) \<Rightarrow> (string \<Rightarrow> string) \<Rightarrow> pyval \<Rightarrow> error + string" where
  "history_line repr upper turn =
     (case py_get turn ''role'' (PStr ''user'') of
        Inl e \<Rightarrow> Inl e
      | Inr role \<Rightarrow>
          (case py_get turn ''content'' (PStr []) of
             Inl e \<Rightarrow> Inl e
           | Inr content \<Rightarrow>
               (case role of
                  PStr r \<Rightarrow> Inr (''['' @ upper r @ ''] '' @ py_str repr content)
                | _ \<Rightarrow> Inl (no_attribute role ''upper''))))"

text \<open>The first exception of a list of results, or all the values.\<close>

fun collect :: "(error + 'a) list \<Rightarrow> error + 'a list" where
  "collect [] = Inr []"
| "collect (Inl e # rs) = Inl e"
| "collect (Inr x # rs) = (case collect rs of Inl e \<Rightarrow> Inl e | Inr xs \<Rightarrow> Inr (x # xs))"

text \<open>
  \<^verbatim>\<open>conversation_history[-8:]\<close>, then the loop over it: a list gives its last eight
  items; a string gives characters, which have no \<^verbatim>\<open>get\<close>; no other value can be
  sliced.
\<close>

definition history_lines :: "(pyval \<Rightarrow> string) \<Rightarrow> (string \<Rightarrow> string) \<Rightarrow> pyval \<Rightarrow> error + string list" where
  "history_lines repr upper conversation_history =
     (case conversation_history of
        PList turns \<Rightarrow> collect (map (history_line repr upper) (drop (length turns - 8) turns))
      | PStr s \<Rightarrow> Inl (no_attribute (PStr s) ''get'')
      | PDict kvs \<Rightarrow> Inl (TypeError (''unhashable type: '' @ [CHR 0x27] @ ''slice'' @ [CHR 0x27]))
      | v \<Rightarrow> Inl (TypeError ([CHR 0x27] @ py_type_name v @ [CHR 0x27] @ '' object is not subscriptable'')))"

definition build_soft_prompt ::
  "(pyval \<Rightarrow> string) \<Rightarrow> (string \<Rightarrow> string) \<Rightarrow> string \<Rightarrow> string list \<Rightarrow> pyval \<Rightarrow> nat \<Rightarrow> error + string" where
  "build_soft_prompt repr upper user_question retrieved_chunks conversation_history max_chunks =
     (let ctx_lines = map (\<lambda>(i, chunk). ctx_line i chunk) (enumerate 0 (take max_chunks retrieved_chunks));
          context_block =
            (if ctx_lines \<noteq> [] then
               ''DOCUMENT EXCERPTS (numbered):\<newline>\<newline>''
                 @ py_join ''\<newline>\<newline>---\<newline>\<newline>'' ctx_lines @ ''\<newline>\<newline>''
             else ''DOCUMENT EXCERPTS: None found for this query.\<newline>\<newline>'')
      in case (if py_truthy conversation_history
               then map_sum id (\<lambda>history_lines.
                      ''RECENT CONVERSATION HISTORY:\<newline>'' @ py_join ''\<newline>'' history_lines @ ''\<newline>\<newline>'')
                    (history_lines repr upper conversation_history)
               else Inr []) of
           Inl e \<Rightarrow> Inl e
         | Inr history_block \<Rightarrow>
             Inr (py_join ''\<newline>\<newline>''
               [system_prompt, context_block, history_block,
                ''QUESTION: '' @ user_question @ ''\<newline>\<newline>ANSWER:'']))"

subsection \<open>\<^verbatim>\<open>_normalize_and_extract_indices\<close>\<close>

text \<open>
  The shapes of a search result that the function names: \<^verbatim>\<open>None\<close>, a scalar, a numpy
  array of integers (its items in order), a tuple of the ids and the distances, a list
  or tuple of integers.
\<close>

datatype search_result =
    NoResult
  | Scalar int
  | NdArray "int list"
  | IdsDistances "int list" "real list"
  | IntList "int list"

text \<open>
  For a tuple or a list, the first item decides: the ids of a pair when there are any,
  the first integer of a list alone. What is left (an array, an empty list, a pair
  without ids, a scalar) goes through \<^verbatim>\<open>np.array(inds)\<close>.
\<close>

fun normalize_and_extract_indices :: "search_result \<Rightarrow> int list" where
  "normalize_and_extract_indices NoResult = []"
| "normalize_and_extract_indices (IdsDistances ids distances) = (if ids \<noteq> [] then ids else [])"
| "normalize_and_extract_indices (IntList xs) = (case xs of x # _ \<Rightarrow> [x] | [] \<Rightarrow> [])"
| "normalize_and_extract_indices (NdArray xs) = (if xs = [] then [] else xs)"
| "normalize_and_extract_indices (Scalar i) = [i]"

subsection \<open>\<^verbatim>\<open>ask\<close>\<close>

text \<open>
  Line 286, \<^verbatim>\<open>[chunks[i] for i in inds_list if isinstance(i, int) and 0 <= i < len(chunks)]\<close>,
  with the indexing as Python does it: an exception of \<^verbatim>\<open>chunks[i]\<close> ends the loop.
\<close>

fun retrieve_chunks :: "string list \<Rightarrow> int list \<Rightarrow> error + string list" where
  "retrieve_chunks chunks [] = Inr []"
| "retrieve_chunks chunks (i # inds) =
     (if 0 \<le> i \<and> i < int (length chunks) then
        (case py_index chunks i of
           Inl e \<Rightarrow> Inl e
         | Inr chunk \<Rightarrow>
             (case retrieve_chunks chunks inds of
                Inl e \<Rightarrow> Inl e
              | Inr rest \<Rightarrow> Inr (chunk # rest)))
      else retrieve_chunks chunks inds)"

text \<open>Lines 334 to 337: the starts of the retrieved chunks as sources.\<close>

definition fallback_sources :: "string list \<Rightarrow> string list" where
  "fallback_sources retrieved =
     map (\<lambda>(i, chunk). ''Source '' @ str_nat (i + 1) @ '': ''
            @ take 120 (py_strip (py_replace_char (CHR 0x0A) '' '' chunk)))
       (enumerate 0 (take (min 5 (length retrieved)) retrieved))"

text \<open>
  Lines 307 to 346: from the reply of the model to the response, or the exception that
  the \<^verbatim>\<open>except\<close> clause of \<^verbatim>\<open>ask\<close> then turns into a response.
\<close>

definition ask_reply ::
  "(string \<Rightarrow> pyval option) \<Rightarrow> (pyval \<Rightarrow> string) \<Rightarrow> string \<Rightarrow> string list \<Rightarrow> error + response" where
  "ask_reply loads repr raw retrieved =
     (case extract_json_span loads raw of
        (structured, start_idx, end_idx) \<Rightarrow>
          if structured \<noteq> PNone then
            (let natural_answer = (if start_idx > 0 then py_strip (take (nat start_idx) raw) else [])
             in case (if natural_answer = [] then
                        (case py_get structured ''answer'' (PStr []) of
                           Inl e \<Rightarrow> Inl e
                         | Inr (PStr a) \<Rightarrow> Inr (py_strip a)
                         | Inr _ \<Rightarrow> Inr [])
                      else Inr natural_answer) of
                  Inl e \<Rightarrow> Inl e
                | Inr natural_answer \<Rightarrow>
                    (case py_get structured ''sources'' (PList []) of
                       Inl e \<Rightarrow> Inl e
                     | Inr sources \<Rightarrow>
                         (let cleaned_sources =
                                (case sources of
                                   PList xs \<Rightarrow> map (\<lambda>s. take 120 (py_str repr s)) xs
                                 | _ \<Rightarrow> [])
                          in Inr (jsonify 200
                               [(''answer'', PStr natural_answer),
                                (''structured'', structured),
                                (''sources'', PList (map PStr cleaned_sources)),
                                (''raw'', PStr raw)]))))
          else
            (let heuristic_sources = extract_sources_from_text raw;
                 heuristic_sources =
                   (if heuristic_sources = [] \<and> retrieved \<noteq> [] then fallback_sources retrieved
                    else heuristic_sources)
             in Inr (jsonify 200
                  [(''answer'', PStr (py_strip raw)),
                   (''structured'', PNone),
                   (''sources'', PList (map PStr heuristic_sources)),
                   (''raw'', PStr raw)])))"

text \<open>
  Lines 277 to 346, the body of the \<^verbatim>\<open>try\<close>. \<open>encode\<close> is the embedding model and \<open>llm\<close>
  the behaviour of \<^verbatim>\<open>query_ollama\<close> on a prompt.
\<close>

definition ask_try ::
  "(string \<Rightarrow> pyval option) \<Rightarrow> (pyval \<Rightarrow> string) \<Rightarrow> (string \<Rightarrow> string) \<Rightarrow>
   (string list \<Rightarrow> error + vec list) \<Rightarrow> (string \<Rightarrow> error + string option) \<Rightarrow>
   string list \<Rightarrow> flat_index \<Rightarrow> string \<Rightarrow> pyval \<Rightarrow> error + response" where
  "ask_try loads repr upper encode llm chunks index msg conversation_history =
     (case encode [msg] of
        Inl e \<Rightarrow> Inl e
      | Inr q_emb \<Rightarrow>
          (let top_k = 6
           in case search_index index q_emb top_k of
                Inl e \<Rightarrow> Inl e
              | Inr (raw_inds, printed) \<Rightarrow>
                  (let inds_list = normalize_and_extract_indices (NdArray raw_inds)
                   in case retrieve_chunks chunks inds_list of
                        Inl e \<Rightarrow> Inl e
                      | Inr retrieved \<Rightarrow>
                          (case build_soft_prompt repr upper msg retrieved conversation_history top_k of
                             Inl e \<Rightarrow> Inl e
                           | Inr prompt \<Rightarrow>
                               (case llm prompt of
                                  Inl e \<Rightarrow> Inl e
                                | Inr raw_opt \<Rightarrow>
                                    (case raw_opt of
                                       None \<Rightarrow>
                                         Inr (jsonify 502
                                           [(''error'', PStr ''No response from LLM (check Ollama server).'')])
                                     | Some raw \<Rightarrow>
                                         if raw = [] \<or> py_strip raw = [] then
                                           Inr (jsonify 502
                                             [(''error'', PStr ''No response from LLM (check Ollama server).'')])
                                         else ask_reply loads repr raw retrieved))))))"

text \<open>
  The global state of the application: \<open>None\<close> is Python's \<^verbatim>\<open>None\<close>. The embedding model
  is a value of the library, of a type \<open>'m\<close> left open.
\<close>

record 'm session =
  chunks :: "string list option"
  faiss_index :: "flat_index option"
  embedding_model :: "'m option"

text \<open>
  \<^verbatim>\<open>ask\<close>. \<open>data\<close> is the JSON body of the request, \<open>None\<close> when it has none. An
  exception before the \<^verbatim>\<open>try\<close> goes to \<^verbatim>\<open>handle_exception\<close>.
\<close>

definition ask ::
  "(string \<Rightarrow> pyval option) \<Rightarrow> (pyval \<Rightarrow> string) \<Rightarrow> (string \<Rightarrow> string) \<Rightarrow>
   ('m \<Rightarrow> string list \<Rightarrow> error + vec list) \<Rightarrow> (string \<Rightarrow> error + string option) \<Rightarrow>
   'm session \<Rightarrow> pyval option \<Rightarrow> response" where
  "ask loads repr upper encode llm st request_json =
     (let data = (case request_json of Some d \<Rightarrow> if py_truthy d then d else PDict [] | None \<Rightarrow> PDict [])
      in case py_get data ''question'' PNone of
           Inl e \<Rightarrow> handle_exception e
         | Inr question \<Rightarrow>
             (case (if py_truthy question then
                      (case question of PStr q \<Rightarrow> Inr (py_strip q) | _ \<Rightarrow> Inl (no_attribute question ''strip''))
                    else Inr []) of
                Inl e \<Rightarrow> handle_exception e
              | Inr msg \<Rightarrow>
                  (case py_get data ''history'' (PList []) of
                     Inl e \<Rightarrow> handle_exception e
                   | Inr history \<Rightarrow>
                       (let conversation_history = (if py_truthy history then history else PList [])
                        in if msg = [] then jsonify 400 [(''error'', PStr ''Empty question'')]
                           else
                             (case (chunks st, faiss_index st, embedding_model st) of
                                (Some cs, Some index, Some model) \<Rightarrow>
                                  if cs = [] then jsonify 400 [(''error'', PStr ''No PDF uploaded yet'')]
                                  else
                                    (case ask_try loads repr upper (encode model) llm cs index msg
                                            conversation_history of
                                       Inl e \<Rightarrow> jsonify 500 [(''error'', PStr (error_message e))]
                                     | Inr r \<Rightarrow> r)
                              | _ \<Rightarrow> jsonify 400 [(''error'', PStr ''No PDF uploaded yet'')])))))"

subsection \<open>\<^verbatim>\<open>upload_pdf\<close>\<close>

text \<open>
  \<^verbatim>\<open>upload_pdf\<close>: the state after the request and the response; \<open>None\<close> when the request
  does not return. \<open>file\<close> is the uploaded file, if any. The libraries are parameters:
  \<open>read_pdf\<close> gives the pages of a file or the exception of the PDF reader,
  \<open>load_model\<close> what loading the embedding model gives, \<open>encode\<close> what the model gives
  for a list of sentences. Writing and deleting the temporary file are not modelled.
\<close>

definition upload_pdf ::
  "('f \<Rightarrow> error + string list) \<Rightarrow> (error + 'm) \<Rightarrow> ('m \<Rightarrow> string list \<Rightarrow> error + vec list) \<Rightarrow>
   'm session \<Rightarrow> 'f option \<Rightarrow> ('m session \<times> response) option" where
  "upload_pdf read_pdf load_model encode st file =
     (case file of
        None \<Rightarrow> Some (st, jsonify 400 [(''error'', PStr ''No file uploaded'')])
      | Some f \<Rightarrow>
          (case pdf_to_chunks (read_pdf f) 500 100 of
             None \<Rightarrow> None
           | Some (Inl e) \<Rightarrow> Some (st, jsonify 500 [(''error'', PStr (error_message e))])
           | Some (Inr cs) \<Rightarrow>
               (let st1 = st\<lparr>chunks := Some cs\<rparr>
                in case (case embedding_model st1 of None \<Rightarrow> load_model | Some m \<Rightarrow> Inr m) of
                     Inl e \<Rightarrow> Some (st1, jsonify 500 [(''error'', PStr (error_message e))])
                   | Inr m \<Rightarrow>
                       (let st2 = st1\<lparr>embedding_model := Some m\<rparr>
                        in case encode m cs of
                             Inl e \<Rightarrow> Some (st2, jsonify 500 [(''error'', PStr (error_message e))])
                           | Inr embeds \<Rightarrow>
                               (case build_faiss_index embeds of
                                  Inl e \<Rightarrow> Some (st2, jsonify 500 [(''error'', PStr (error_message e))])
                                | Inr index \<Rightarrow>
                                    Some (st2\<lparr>faiss_index := Some index\<rparr>,
                                      jsonify 200 [(''status'', PStr ''ok''),
                                        (''chunk_count'', PInt (int (length cs)))]))))))"

section \<open>The candidates of the response parser\<close>










section \<open>Lemmas on the text primitives\<close>

lemma dropWhile_all_space: "list_all is_space (dropWhile is_space s) \<longleftrightarrow> list_all is_space s"
  by (induction s) auto

lemma py_strip_empty_iff: "py_strip s = [] \<longleftrightarrow> list_all is_space s"
proof -
  have "py_strip s = [] \<longleftrightarrow> list_all is_space (rev (dropWhile is_space s))"
    by (simp add: py_strip_def dropWhile_eq_Nil_conv list_all_iff)
  then show ?thesis by (simp add: dropWhile_all_space)
qed

lemma py_split_from_run:
  "list_all (\<lambda>c. \<not> is_space c) u \<Longrightarrow> py_split_from w (u @ rest) = py_split_from (w @ u) rest"
  by (induction u arbitrary: w) auto

lemma py_split_from_words:
  "list_all (\<lambda>c. \<not> is_space c) w \<Longrightarrow> list_all is_word (py_split_from w s)"
  by (induction w s rule: py_split_from.induct) (auto simp: is_word_def)

lemma py_split_words: "list_all is_word (py_split s)"
  by (simp add: py_split_def py_split_from_words)

lemma py_split_join:
  "list_all is_word ws \<Longrightarrow> py_split (py_join '' '' ws) = ws"
proof (induction ws)
  case Nil
  then show ?case by (simp add: py_split_def)
next
  case (Cons x xs)
  then have x: "x \<noteq> []" "list_all (\<lambda>c. \<not> is_space c) x"
    by (simp_all add: is_word_def)
  show ?case
  proof (cases xs)
    case Nil
    have "py_split_from [] (x @ []) = py_split_from ([] @ x) []"
      using x by (intro py_split_from_run)
    with x Nil show ?thesis by (simp add: py_split_def)
  next
    case (Cons y ys)
    have "py_split_from [] (x @ '' '' @ py_join '' '' xs)
        = py_split_from ([] @ x) ('' '' @ py_join '' '' xs)"
      using x by (intro py_split_from_run)
    moreover have "py_split (py_join '' '' xs) = xs"
      using Cons.IH Cons.prems by simp
    ultimately show ?thesis
      using x Cons by (simp add: py_split_def is_space_def)
  qed
qed

lemma py_join_nonblank:
  "ws \<noteq> [] \<Longrightarrow> list_all is_word ws \<Longrightarrow> py_strip (py_join sep ws) \<noteq> []"
proof -
  assume "ws \<noteq> []" and w: "list_all is_word ws"
  then obtain x xs where ws: "ws = x # xs" by (cases ws) auto
  with w obtain c cs where x: "x = c # cs" and c: "\<not> is_space c"
    by (cases x) (auto simp: is_word_def)
  have "py_join sep ws = c # (cs @ (if xs = [] then [] else sep @ py_join sep xs))"
    unfolding ws x by (cases xs) auto
  with c show ?thesis by (simp add: py_strip_empty_iff)
qed

section \<open>The chunking loop\<close>

lemma runs_from_done: "0 < step \<Longrightarrow> int n \<le> i \<Longrightarrow> runs_from n step i = 0"
  unfolding runs_from_def
  by (smt (verit, best) div_neg_pos_less0 nat_le_0 zdiv_eq_0_iff)

lemma runs_from_step:
  assumes "0 < step" "i < int n"
  shows "runs_from n step i = Suc (runs_from n step (i + step))"
proof -
  have "(int n - i + step - 1) div step = (int n - (i + step) + step - 1) div step + 1"
    using assms by (smt (verit) div_add_self2)
  moreover have "0 \<le> (int n - (i + step) + step - 1) div step"
    using assms by (simp add: pos_imp_zdiv_nonneg_iff)
  ultimately show ?thesis unfolding runs_from_def by simp
qed

lemma chunk_body_eq:
  "chunk_body words chunk_size i acc =
     acc @ filter (\<lambda>t. py_strip t \<noteq> []) [chunk_at words chunk_size step i 0]"
  by (simp add: chunk_body_def chunk_at_def Let_def)

lemma chunk_loop_pos:
  assumes "0 < step"
  shows "chunk_loop words chunk_size step i acc =
     Some (acc @ filter (\<lambda>t. py_strip t \<noteq> [])
       (map (chunk_at words chunk_size step i) [0..<runs_from (length words) step i]))"
proof (induction "nat (int (length words) - i)" arbitrary: i acc rule: less_induct)
  case less
  show ?case
  proof (cases "i < int (length words)")
    case False
    with assms show ?thesis
      by (subst chunk_loop.simps) (simp add: runs_from_done)
  next
    case True
    let ?n = "runs_from (length words) step (i + step)"
    have IH: "chunk_loop words chunk_size step (i + step) (chunk_body words chunk_size i acc) =
       Some (chunk_body words chunk_size i acc @ filter (\<lambda>t. py_strip t \<noteq> [])
         (map (chunk_at words chunk_size step (i + step)) [0..<?n]))"
      using True assms by (intro less) simp
    have shift: "map (chunk_at words chunk_size step i) [0..<Suc ?n] =
        chunk_at words chunk_size step i 0 # map (chunk_at words chunk_size step (i + step)) [0..<?n]"
      unfolding upt_conv_Cons[OF zero_less_Suc] map_Suc_upt[symmetric]
      by (simp add: chunk_at_def algebra_simps)
    show ?thesis
      apply (subst chunk_loop.simps)
      using True assms
      apply (simp add: Let_def IH runs_from_step shift del: upt_Suc)
      apply (simp add: chunk_body_eq[where step = step])
      done
  qed
qed

lemma py_slice_nonneg:
  "0 \<le> a \<Longrightarrow> a \<le> b \<Longrightarrow> py_slice xs a b = take (nat (b - a)) (drop (nat a) xs)"
  unfolding py_slice_def slice_bound_def Let_def
  by (cases "nat a \<le> length xs") (auto simp: min_def nat_diff_distrib take_all_iff)

lemma window_take_drop:
  assumes "0 \<le> step" "0 \<le> chunk_size"
  shows "window words chunk_size step j = take (nat chunk_size) (drop (j * nat step) words)"
proof -
  have "nat (int j * step) = j * nat step"
    using assms by (simp add: nat_mult_distrib)
  with assms show ?thesis
    by (simp add: window_def py_slice_nonneg)
qed

lemma runs_from_less_iff:
  assumes "0 < step"
  shows "j < runs_from n step i \<longleftrightarrow> i + int j * step < int n"
proof (induction j arbitrary: i)
  case 0
  show ?case
    using assms runs_from_done[of step n i] runs_from_step[of step i n]
    by (cases "i < int n") auto
next
  case (Suc j)
  show ?case
  proof (cases "i < int n")
    case True
    with assms Suc[of "i + step"] show ?thesis
      by (simp add: runs_from_step algebra_simps)
  next
    case False
    moreover have "0 \<le> (1 + int j) * step"
      using assms by simp
    ultimately have "\<not> i + (1 + int j) * step < int n"
      by linarith
    with False show ?thesis
      using assms runs_from_done[of step n i] by simp
  qed
qed

lemma chunk_words_pos:
  assumes "0 < chunk_step chunk_size overlap"
  shows "chunk_words words chunk_size overlap =
     Some (filter (\<lambda>t. py_strip t \<noteq> [])
       (map (\<lambda>j. py_join '' '' (window words chunk_size (chunk_step chunk_size overlap) j))
          [0..<runs_from (length words) (chunk_step chunk_size overlap) 0]))"
proof -
  have "chunk_at words chunk_size (chunk_step chunk_size overlap) 0 =
      (\<lambda>j. py_join '' '' (window words chunk_size (chunk_step chunk_size overlap) j))"
    by (rule ext) (simp add: chunk_at_def window_def)
  with assms show ?thesis
    by (simp add: chunk_words_def chunk_loop_pos)
qed

lemma window_words:
  assumes "0 < step" "0 < chunk_size" "list_all is_word words" "int j * step < int (length words)"
  shows "window words chunk_size step j \<noteq> []" "list_all is_word (window words chunk_size step j)"
proof -
  have w: "window words chunk_size step j = take (nat chunk_size) (drop (j * nat step) words)"
    using assms by (simp add: window_take_drop)
  have "int (j * nat step) = int j * step"
    using assms by simp
  with assms have "j * nat step < length words"
    by linarith
  with assms show "window words chunk_size step j \<noteq> []"
    by (simp add: w)
  show "list_all is_word (window words chunk_size step j)"
    using assms(3) unfolding w list_all_iff
    by (meson in_set_dropD in_set_takeD)
qed

lemma chunk_words_windows:
  assumes "0 \<le> overlap" "overlap < chunk_size" "list_all is_word words"
  shows "chunk_words words chunk_size overlap =
     Some (map (\<lambda>j. py_join '' '' (window words chunk_size (chunk_size - overlap) j))
          [0..<runs_from (length words) (chunk_size - overlap) 0])"
proof -
  let ?step = "chunk_size - overlap"
  have step: "chunk_step chunk_size overlap = ?step" "0 < ?step" "0 < chunk_size"
    using assms by (simp_all add: chunk_step_def)
  have "py_strip (py_join '' '' (window words chunk_size ?step j)) \<noteq> []"
    if "j < runs_from (length words) ?step 0" for j
  proof -
    from that step have "int j * ?step < int (length words)"
      by (simp add: runs_from_less_iff)
    with step assms show ?thesis
      by (intro py_join_nonblank window_words)
  qed
  then have "filter (\<lambda>t. py_strip t \<noteq> [])
       (map (\<lambda>j. py_join '' '' (window words chunk_size ?step j))
          [0..<runs_from (length words) ?step 0]) =
       map (\<lambda>j. py_join '' '' (window words chunk_size ?step j))
          [0..<runs_from (length words) ?step 0]"
    by (intro filter_True) auto
  with step show ?thesis
    using chunk_words_pos[of chunk_size overlap words] by simp
qed

text \<open>
  Claim C1, as the code has it. For \<open>chunk_size > overlap \<ge> 0\<close> and a list of words, with
  \<open>step = chunk_size - overlap\<close>: the chunker returns one chunk for every \<open>j\<close> with
  \<open>j * step < len(words)\<close>; chunk \<open>j\<close> is the join of the contiguous slice
  \<open>words[j * step : j * step + chunk_size]\<close>, and splitting it gives that slice back; it has
  \<open>min(chunk_size, len(words) - j * step)\<close> words, so exactly \<open>chunk_size\<close> where the
  window fits in the list and fewer in each trailing chunk (there can be several); the
  words chunk \<open>j\<close> has past its first \<open>step\<close> are the first \<open>overlap\<close> words of
  chunk \<open>j + 1\<close>, and there are \<open>min(overlap, len(words) - (j + 1) * step)\<close> of them.
\<close>

theorem pdf_to_chunks_sliding_window:
  assumes "0 \<le> overlap" "overlap < chunk_size" "list_all is_word words"
  shows "\<exists>res. chunk_words words chunk_size overlap = Some res \<and>
    (\<forall>j. (j < length res \<longleftrightarrow> int j * (chunk_size - overlap) < int (length words)) \<and>
      (j < length res \<longrightarrow>
        res ! j = py_join '' '' (window words chunk_size (chunk_size - overlap) j) \<and>
        py_split (res ! j) = window words chunk_size (chunk_size - overlap) j \<and>
        window words chunk_size (chunk_size - overlap) j =
          take (nat chunk_size) (drop (j * nat (chunk_size - overlap)) words) \<and>
        length (window words chunk_size (chunk_size - overlap) j) =
          min (nat chunk_size) (length words - j * nat (chunk_size - overlap)) \<and>
        (Suc j < length res \<longrightarrow>
          drop (nat (chunk_size - overlap)) (window words chunk_size (chunk_size - overlap) j) =
            take (nat overlap) (window words chunk_size (chunk_size - overlap) (Suc j)) \<and>
          length (take (nat overlap) (window words chunk_size (chunk_size - overlap) (Suc j))) =
            min (nat overlap) (length words - Suc j * nat (chunk_size - overlap)))))"
proof -
  let ?step = "chunk_size - overlap"
  let ?w = "window words chunk_size ?step"
  let ?res = "map (\<lambda>j. py_join '' '' (?w j)) [0..<runs_from (length words) ?step 0]"
  have step: "0 < ?step" "0 < chunk_size" "0 \<le> ?step" "0 \<le> chunk_size"
    using assms by simp_all
  have w: "?w j = take (nat chunk_size) (drop (j * nat ?step) words)" for j
    using step by (simp add: window_take_drop)
  have len: "j < length ?res \<longleftrightarrow> int j * ?step < int (length words)" for j
    using step by (simp add: runs_from_less_iff)
  have split: "py_split (py_join '' '' (?w j)) = ?w j" if "j < length ?res" for j
  proof -
    from that len[of j] have "int j * ?step < int (length words)" by simp
    with step assms show ?thesis by (intro py_split_join window_words)
  qed
  have ov: "nat chunk_size - nat ?step = nat overlap" "min (nat overlap) (nat chunk_size) = nat overlap"
    using assms by simp_all
  have shared: "drop (nat ?step) (?w j) = take (nat overlap) (?w (Suc j))" for j
    by (simp add: w drop_take ov add.commute)
  have "chunk_words words chunk_size overlap = Some ?res"
    using assms by (rule chunk_words_windows)
  moreover have "\<forall>j. (j < length ?res \<longleftrightarrow> int j * ?step < int (length words)) \<and>
      (j < length ?res \<longrightarrow>
        ?res ! j = py_join '' '' (?w j) \<and>
        py_split (?res ! j) = ?w j \<and>
        ?w j = take (nat chunk_size) (drop (j * nat ?step) words) \<and>
        length (?w j) = min (nat chunk_size) (length words - j * nat ?step) \<and>
        (Suc j < length ?res \<longrightarrow>
          drop (nat ?step) (?w j) = take (nat overlap) (?w (Suc j)) \<and>
          length (take (nat overlap) (?w (Suc j))) =
            min (nat overlap) (length words - Suc j * nat ?step)))"
  proof (intro allI conjI impI)
    fix j
    show "j < length ?res \<longleftrightarrow> int j * ?step < int (length words)" by (rule len)
    show "?w j = take (nat chunk_size) (drop (j * nat ?step) words)" by (rule w)
    show "length (?w j) = min (nat chunk_size) (length words - j * nat ?step)"
      by (simp add: w min.commute)
    show "drop (nat ?step) (?w j) = take (nat overlap) (?w (Suc j))" by (rule shared)
    show "length (take (nat overlap) (?w (Suc j))) =
        min (nat overlap) (length words - Suc j * nat ?step)"
      using assms by (simp add: w[of "Suc j"] min_def)
  next
    fix j assume j: "j < length ?res"
    then show "?res ! j = py_join '' '' (?w j)" by simp
    with split[OF j] show "py_split (?res ! j) = ?w j" by simp
  qed
  ultimately show ?thesis by blast
qed

theorem pdf_to_chunks_sliding_window_witness:
  "list_all is_word [''a'', ''b'', ''c'', ''d''] \<and>
   (\<exists>res. chunk_words [''a'', ''b'', ''c'', ''d''] 3 2 = Some res \<and>
      2 < length res \<and> Suc 2 < length res \<and>
      res ! 2 = py_join '' '' (window [''a'', ''b'', ''c'', ''d''] 3 1 2) \<and>
      py_split (res ! 2) = [''c'', ''d''] \<and>
      length (window [''a'', ''b'', ''c'', ''d''] 3 1 2) = 2 \<and>
      drop 1 (window [''a'', ''b'', ''c'', ''d''] 3 1 2) = [''d''])"
proof -
  have h: "list_all is_word [''a'', ''b'', ''c'', ''d'']"
    by (simp add: is_word_def is_space_def)
  have w: "window [''a'', ''b'', ''c'', ''d''] 3 1 2 = [''c'', ''d'']"
      "window [''a'', ''b'', ''c'', ''d''] 3 1 3 = [''d'']"
    by (simp_all add: window_def py_slice_def slice_bound_def)
  from pdf_to_chunks_sliding_window[of 2 3 "[''a'', ''b'', ''c'', ''d'']"] h
  obtain res where c: "chunk_words [''a'', ''b'', ''c'', ''d''] 3 2 = Some res"
    and j: "\<And>j. (j < length res \<longleftrightarrow> int j * 1 < 4)"
    and p: "\<And>j. j < length res \<Longrightarrow>
        res ! j = py_join '' '' (window [''a'', ''b'', ''c'', ''d''] 3 1 j) \<and>
        py_split (res ! j) = window [''a'', ''b'', ''c'', ''d''] 3 1 j"
    by auto
  have "2 < length res" "Suc 2 < length res"
    by (simp_all add: j)
  with p[of 2] c h w show ?thesis by (simp add: py_split_def is_space_def)
qed

text \<open>
  Claim C1 as stated fails on the words a, b, c, d with \<open>chunk_size = 3\<close> and
  \<open>overlap = 2\<close>: the third of the four chunks is not the last and has two words, not
  three, and it shares one word with the fourth, not two.
\<close>

theorem pdf_to_chunks_short_tail_counterexample:
  "chunk_words [''a'', ''b'', ''c'', ''d''] 3 2 = Some [''a b c'', ''b c d'', ''c d'', ''d''] \<and>
   py_split ''c d'' = [''c'', ''d''] \<and> py_split ''d'' = [''d'']"
  by (simp add: chunk_words_def chunk_step_def chunk_loop.simps chunk_body_def py_slice_def
      slice_bound_def py_strip_def py_split_def is_space_def Let_def)

section \<open>Termination of the chunker\<close>

lemma chunk_loop_nonpos:
  "step \<le> 0 \<Longrightarrow> chunk_loop words chunk_size step i acc =
     Some (if i < int (length words) then chunk_body words chunk_size i acc else acc)"
  by (subst chunk_loop.simps) (simp add: Let_def)

lemma chunk_loop_returns: "\<exists>res. chunk_loop words chunk_size step i acc = Some res"
  by (cases "0 < step") (simp_all add: chunk_loop_pos chunk_loop_nonpos)

lemma pdf_to_chunks_returns: "\<exists>r. pdf_to_chunks doc chunk_size overlap = Some r"
proof (cases doc)
  case (Inl e)
  then show ?thesis by (simp add: pdf_to_chunks_def)
next
  case (Inr pages)
  obtain res where "chunk_words
      (py_split (py_join '' '' (filter (\<lambda>page_text. py_strip page_text \<noteq> []) pages)))
      chunk_size overlap = Some res"
    unfolding chunk_words_def using chunk_loop_returns by blast
  with Inr show ?thesis by (simp add: pdf_to_chunks_def Let_def)
qed

text \<open>
  Claim C10. \<^verbatim>\<open>pdf_to_chunks\<close> returns (a list of chunks or an exception) for every document
  and every \<open>chunk_size\<close> and \<open>overlap\<close>, and its loop returns from every state; when
  \<open>chunk_size \<le> overlap\<close> the step is \<open>chunk_size\<close>; and with a step \<open>\<le> 0\<close> the loop
  runs its body once (when \<open>i < len(words)\<close>) and leaves.
\<close>

theorem pdf_to_chunks_terminates:
  "(\<exists>r. pdf_to_chunks doc chunk_size overlap = Some r) \<and>
   (\<exists>res. chunk_loop words chunk_size step i acc = Some res) \<and>
   (chunk_size \<le> overlap \<longrightarrow> chunk_step chunk_size overlap = chunk_size) \<and>
   (step \<le> 0 \<longrightarrow> chunk_loop words chunk_size step i acc =
      Some (if i < int (length words) then chunk_body words chunk_size i acc else acc))"
  using pdf_to_chunks_returns chunk_loop_returns
  by (simp add: chunk_step_def chunk_loop_nonpos)

theorem pdf_to_chunks_terminates_witness:
  "(0::int) \<le> 5 \<and> chunk_step 0 5 = 0 \<and>
   chunk_loop [''a'', ''b''] 0 0 0 [] = Some (chunk_body [''a'', ''b''] 0 0 []) \<and>
   chunk_body [''a'', ''b''] 0 0 [] = [] \<and>
   (\<exists>r. pdf_to_chunks (Inr [''a b'']) 0 5 = Some r)"
  using pdf_to_chunks_terminates[of "Inr [''a b'']" 0 5 "[''a'', ''b'']" 0 0 "[]"]
  by (simp add: chunk_body_def py_slice_def slice_bound_def py_strip_def)

section \<open>The model client\<close>

lemma query_ollama_api_result:
  "py_truthy (query_ollama_api repr http) \<or> query_ollama_api repr http = PNone \<or>
   query_ollama_api repr http = PStr []"
  by (auto simp: query_ollama_api_def py_or_def split: sum.splits pyval.splits)

lemma falsy_api_result:
  "\<not> py_truthy (query_ollama_api repr http) \<longleftrightarrow>
   query_ollama_api repr http = PNone \<or> query_ollama_api repr http = PStr []"
  using query_ollama_api_result[of repr http] by auto

text \<open>
  Claim C6. \<^verbatim>\<open>query_ollama\<close> calls the HTTP API first. When the API result is truthy it
  is returned as a string and no other call is made: a string result stripped, a
  dictionary or list through \<^verbatim>\<open>json.dumps\<close>, any other value as its stripped text. The
  subprocess is called exactly when the API result is \<^verbatim>\<open>None\<close> or the empty string, and
  then its result is returned; so \<^verbatim>\<open>None\<close> is returned exactly when the API gave \<^verbatim>\<open>None\<close>
  or the empty string and the subprocess gave \<^verbatim>\<open>None\<close>.
\<close>

theorem query_ollama_api_first:
  "(\<exists>rest. snd (query_ollama repr dumps api proc prompt) = ApiCall # rest) \<and>
   (\<forall>s. query_ollama_api repr (api prompt) = PStr s \<and> s \<noteq> [] \<longrightarrow>
      query_ollama repr dumps api proc prompt = (Some (py_strip s), [ApiCall])) \<and>
   (py_truthy (query_ollama_api repr (api prompt)) \<longrightarrow>
      snd (query_ollama repr dumps api proc prompt) = [ApiCall] \<and>
      fst (query_ollama repr dumps api proc prompt) =
        Some (if is_container (query_ollama_api repr (api prompt))
              then (case dumps (query_ollama_api repr (api prompt)) of
                      Some s \<Rightarrow> s
                    | None \<Rightarrow> py_str repr (query_ollama_api repr (api prompt)))
              else py_strip (py_str repr (query_ollama_api repr (api prompt))))) \<and>
   (SubprocessCall \<in> set (snd (query_ollama repr dumps api proc prompt)) \<longleftrightarrow>
      query_ollama_api repr (api prompt) = PNone \<or> query_ollama_api repr (api prompt) = PStr []) \<and>
   (query_ollama_api repr (api prompt) = PNone \<or> query_ollama_api repr (api prompt) = PStr [] \<longrightarrow>
      query_ollama repr dumps api proc prompt =
        (query_ollama_subprocess (proc prompt), [ApiCall, SubprocessCall])) \<and>
   (fst (query_ollama repr dumps api proc prompt) = None \<longleftrightarrow>
      (query_ollama_api repr (api prompt) = PNone \<or> query_ollama_api repr (api prompt) = PStr []) \<and>
      query_ollama_subprocess (proc prompt) = None)"
proof -
  let ?r = "query_ollama_api repr (api prompt)"
  show ?thesis
  proof (cases "py_truthy ?r")
    case True
    then have "?r \<noteq> PNone" "?r \<noteq> PStr []" by auto
    with True show ?thesis
      by (auto simp: query_ollama_def Let_def is_container_def py_str_def split: option.splits)
  next
    case False
    then have "?r = PNone \<or> ?r = PStr []"
      using falsy_api_result[of repr "api prompt"] by simp
    with False show ?thesis
      by (auto simp: query_ollama_def Let_def)
  qed
qed

theorem query_ollama_api_first_witness:
  "\<forall>repr dumps proc.
     query_ollama_api repr (Inr (PDict [(''response'', PStr '' hello '')])) = PStr '' hello '' \<and>
     query_ollama repr dumps (\<lambda>p. Inr (PDict [(''response'', PStr '' hello '')])) proc ''hi''
       = (Some ''hello'', [ApiCall]) \<and>
     query_ollama_api repr (Inl (LibraryError ''ConnectionError'')) = PNone \<and>
     query_ollama repr dumps (\<lambda>p. Inl (LibraryError ''ConnectionError'')) (\<lambda>p. Inr (1, ''x'')) ''hi''
       = (None, [ApiCall, SubprocessCall])"
proof (intro allI)
  fix repr :: "pyval \<Rightarrow> string" and dumps :: "pyval \<Rightarrow> string option"
    and proc :: "string \<Rightarrow> error + int \<times> string"
  have a: "query_ollama_api repr (Inr (PDict [(''response'', PStr '' hello '')])) = PStr '' hello ''"
    by (simp add: query_ollama_api_def py_or_def dict_get_def)
  have b: "query_ollama_api repr (Inl (LibraryError ''ConnectionError'')) = PNone"
    by (simp add: query_ollama_api_def)
  have s: "py_strip '' hello '' = ''hello''"
    by (simp add: py_strip_def is_space_def)
  show "query_ollama_api repr (Inr (PDict [(''response'', PStr '' hello '')])) = PStr '' hello '' \<and>
     query_ollama repr dumps (\<lambda>p. Inr (PDict [(''response'', PStr '' hello '')])) proc ''hi''
       = (Some ''hello'', [ApiCall]) \<and>
     query_ollama_api repr (Inl (LibraryError ''ConnectionError'')) = PNone \<and>
     query_ollama repr dumps (\<lambda>p. Inl (LibraryError ''ConnectionError'')) (\<lambda>p. Inr (1, ''x'')) ''hi''
       = (None, [ApiCall, SubprocessCall])"
    using query_ollama_api_first[of repr dumps "\<lambda>p. Inr (PDict [(''response'', PStr '' hello '')])" proc "''hi''"]
      query_ollama_api_first[of repr dumps "\<lambda>p. Inl (LibraryError ''ConnectionError'')" "\<lambda>p. Inr (1, ''x'')" "''hi''"]
    by (simp add: a b s query_ollama_subprocess_def)
qed

section \<open>The greeting\<close>

text \<open>
  Claim C9. Whatever the model client does (a reply, an empty reply, \<^verbatim>\<open>None\<close> or an
  exception), \<^verbatim>\<open>greet\<close> answers with status 200 and a JSON body whose
  \<^verbatim>\<open>greeting\<close> field is a string: the reply, the empty string, or the default greeting
  after an exception.
\<close>

theorem greet_always_ok:
  "greet client =
     jsonify 200 [(''greeting'',
       PStr (case client greet_prompt of
               Inl e \<Rightarrow> default_greeting
             | Inr None \<Rightarrow> []
             | Inr (Some s) \<Rightarrow> s))] \<and>
   status (greet client) = 200 \<and>
   (\<exists>g. body (greet client) = PDict [(''greeting'', PStr g)])"
  by (auto simp: greet_def jsonify_def split: sum.splits option.splits)

section \<open>Retrieval in \<^verbatim>\<open>ask\<close>\<close>



lemma normalize_NdArray: "normalize_and_extract_indices (NdArray xs) = xs"
  by simp

lemma length_flat_ip_search: "length (flat_ip_search index q k) = k"
  by (simp add: flat_ip_search_def ranked_def)




section \<open>The upload\<close>

lemma pdf_new_text: "pdf_to_chunks (Inr [''new text'']) 500 100 = Some (Inr [''new text''])"
  by (simp add: pdf_to_chunks_def chunk_words_def chunk_step_def chunk_loop.simps chunk_body_def
      py_slice_def slice_bound_def py_strip_def py_split_def is_space_def Let_def)

text \<open>
  Claim C4 fails on the code. An upload whose PDF is read and chunked, and whose
  embedding then raises, answers 500 and leaves the chunks of the new PDF beside the
  index of the old one: \<^verbatim>\<open>upload_pdf\<close> assigns the global \<^verbatim>\<open>chunks\<close> before the
  embedding and the index are made.
\<close>

theorem upload_pdf_failed_embedding:
  "upload_pdf (\<lambda>f. Inr [''new text'']) load_model (\<lambda>m sentences. Inl (LibraryError ''out of memory''))
     \<lparr>chunks = Some [''old text''], faiss_index = Some old_index, embedding_model = Some model\<rparr>
     (Some file)
   = Some (\<lparr>chunks = Some [''new text''], faiss_index = Some old_index, embedding_model = Some model\<rparr>,
           jsonify 500 [(''error'', PStr ''out of memory'')])"
  by (simp add: upload_pdf_def pdf_new_text)

section \<open>The reply of the model in \<^verbatim>\<open>ask\<close>\<close>

text \<open>
  When \<^verbatim>\<open>_extract_json_span\<close> returns \<^verbatim>\<open>None\<close> as the parsed value, \<^verbatim>\<open>ask\<close> answers with
  the stripped reply, a null \<^verbatim>\<open>structured\<close> field, and the sources found in the reply or,
  when there are none, the starts of the retrieved chunks.
\<close>

lemma ask_reply_fallback:
  assumes "fst (extract_json_span loads raw) = PNone"
  shows "ask_reply loads repr raw retrieved =
     Inr (jsonify 200
       [(''answer'', PStr (py_strip raw)),
        (''structured'', PNone),
        (''sources'', PList (map PStr
           (if extract_sources_from_text raw = [] \<and> retrieved \<noteq> []
            then fallback_sources retrieved else extract_sources_from_text raw))),
        (''raw'', PStr raw)])"
  using assms by (cases "extract_json_span loads raw") (simp add: ask_reply_def Let_def)

lemma build_soft_prompt_no_history:
  "\<not> py_truthy h \<Longrightarrow> \<exists>p. build_soft_prompt repr upper q r h k = Inr p"
  by (simp add: build_soft_prompt_def Let_def)

text \<open>
  Claim C7 fails on the code. The reply \<^verbatim>\<open><<<JSON_START>>>[1]<<<JSON_END>>>\<close> is not empty
  and holds no JSON object, but \<^verbatim>\<open>_extract_json_span\<close> returns the list between the
  markers; \<^verbatim>\<open>ask\<close> then calls \<^verbatim>\<open>get\<close> on the list, which raises, and answers with
  status 500 instead of the raw reply.
\<close>

theorem ask_non_object_json_fails:
  "ask json_loads repr upper (\<lambda>model sentences. Inr [[1]])
     (\<lambda>prompt. Inr (Some ''<<<JSON_START>>>[1]<<<JSON_END>>>''))
     \<lparr>chunks = Some [''some text''], faiss_index = Some \<lparr>dimension = 1, vectors = [[1]]\<rparr>,
      embedding_model = Some model\<rparr>
     (Some (PDict [(''question'', PStr ''What?'')]))
   = jsonify 500 [(''error'', PStr (error_message (no_attribute (PList [PInt 1]) ''get'')))] \<and>
   json_loads ''[1]'' = Some (PList [PInt 1])"
proof -
  let ?raw = "''<<<JSON_START>>>[1]<<<JSON_END>>>''"
  have a: "json_loads ''[1]'' = Some (PList [PInt 1])" by code_simp
  have b: "extract_json_span json_loads ?raw = (PList [PInt 1], 16, 19)"
    by code_simp
  have c: "py_strip (take 16 ?raw) \<noteq> []" "py_strip ?raw \<noteq> []" "py_strip ''What?'' = ''What?''"
    by (simp_all add: py_strip_def is_space_def)
  have reply: "ask_reply json_loads repr ?raw retrieved = Inl (no_attribute (PList [PInt 1]) ''get'')"
    for retrieved
    by (simp add: a b c ask_reply_def py_get_def Let_def)
  have s: "search_index \<lparr>dimension = Suc 0, vectors = [[1]]\<rparr> [[1]] 6 =
      Inr ([0, -1, -1, -1, -1, -1],
           [(0, 1), (-1, no_score), (-1, no_score), (-1, no_score), (-1, no_score), (-1, no_score)])"
    by (simp add: search_index_def normalize_L2_def normalize_row_def norm_L2sqr_def
        inner_product_def flat_ip_search_def flat_ip_scores_def ranked_def ip_scores_def
        eval_nat_numeral)
  obtain p where p: "build_soft_prompt repr upper ''What?''
      [''some text''] (PList []) 6 = Inr p"
    using build_soft_prompt_no_history[of "PList []" repr upper "''What?''" "[''some text'']" 6]
    by auto
  have t: "ask_try json_loads repr upper (\<lambda>sentences. Inr [[1]])
      (\<lambda>prompt. Inr (Some ?raw)) [''some text''] \<lparr>dimension = Suc 0, vectors = [[1]]\<rparr> ''What?'' (PList [])
      = Inl (no_attribute (PList [PInt 1]) ''get'')"
    by (simp add: ask_try_def s p reply c py_index_def Let_def)
  show ?thesis
    by (simp add: ask_def py_get_def c t a Let_def)
qed

section \<open>The vector index\<close>

lemma inner_product_scale:
  "inner_product (map (\<lambda>v. v * c) x) (map (\<lambda>v. v * d) y) = c * d * inner_product x y"
proof (induction x arbitrary: y)
  case Nil
  then show ?case by (simp add: inner_product_def)
next
  case (Cons a x)
  then show ?case
    by (cases y) (simp_all add: inner_product_def algebra_simps)
qed

lemma inner_product_scale_left:
  "inner_product (map (\<lambda>v. v * c) x) y = c * inner_product x y"
  using inner_product_scale[of c x 1 y] by simp

lemma norm_L2sqr_nonneg: "0 \<le> norm_L2sqr x"
  by (induction x) (simp_all add: norm_L2sqr_def inner_product_def)

lemma norm_L2sqr_pos_iff: "0 < norm_L2sqr x \<longleftrightarrow> \<not> is_zero_vec x"
proof (induction x)
  case Nil
  then show ?case by (simp add: norm_L2sqr_def inner_product_def is_zero_vec_def)
next
  case (Cons a x)
  have "0 \<le> norm_L2sqr x" by (rule norm_L2sqr_nonneg)
  moreover have "norm_L2sqr (a # x) = a * a + norm_L2sqr x"
    by (simp add: norm_L2sqr_def inner_product_def)
  moreover have "0 < a * a \<longleftrightarrow> a \<noteq> 0" "0 \<le> a * a"
    by (simp_all add: power2_eq_square[symmetric])
  ultimately show ?case
    using Cons by (auto simp: is_zero_vec_def add_pos_nonneg add_nonneg_pos)
qed

lemma normalized_inner_product:
  assumes "\<not> is_zero_vec x" "\<not> is_zero_vec q"
  shows "inner_product (normalize_row q) (normalize_row x) = cosine_similarity x q"
proof -
  have px: "0 < norm_L2sqr x" and pq: "0 < norm_L2sqr q"
    using assms by (simp_all add: norm_L2sqr_pos_iff)
  have comm: "inner_product q x = inner_product x q"
    unfolding inner_product_def
    by (induction q arbitrary: x) (simp, case_tac x, simp_all add: mult.commute)
  have nq: "normalize_row q = map (\<lambda>v. v * (1 / sqrt (norm_L2sqr q))) q"
    and nx: "normalize_row x = map (\<lambda>v. v * (1 / sqrt (norm_L2sqr x))) x"
    using px pq by (simp_all only: normalize_row_def if_True)
  have "inner_product (normalize_row q) (normalize_row x) =
      1 / sqrt (norm_L2sqr q) * (1 / sqrt (norm_L2sqr x)) * inner_product q x"
    by (simp only: nq nx inner_product_scale)
  also have "\<dots> = inner_product x q / (sqrt (norm_L2sqr x) * sqrt (norm_L2sqr q))"
    by (simp add: comm)
  finally show ?thesis
    by (simp add: cosine_similarity_def)
qed

lemma build_faiss_index_vectors:
  "build_faiss_index embeddings = Inr index \<Longrightarrow> vectors index = map normalize_row embeddings"
  by (auto simp: build_faiss_index_def normalize_L2_def split: list.splits)

lemma search_index_single:
  "length q = dimension index \<Longrightarrow> 0 < top_k \<Longrightarrow>
   search_index index [q] top_k =
     Inr (flat_ip_search index (normalize_row q) top_k,
          zip (flat_ip_search index (normalize_row q) top_k)
              (flat_ip_scores index (normalize_row q) top_k))"
  by (simp add: search_index_def normalize_L2_def normalize_row_def Let_def)

lemma sqrt25: "sqrt 25 = 5"
  by (rule real_sqrt_unique) simp_all

lemma ranked_props:
  "length (ranked index q) = length (vectors index)"
  "distinct (ranked index q)"
  "set (ranked index q) = {0..<length (vectors index)}"
  "sorted (map (\<lambda>i. - (ip_scores index q ! i)) (ranked index q))"
  by (simp_all add: ranked_def)

lemma flat_ip_search_split:
  "take (min k (length (vectors index))) (flat_ip_search index q k) = map int (take k (ranked index q))"
  "drop (min k (length (vectors index))) (flat_ip_search index q k)
     = replicate (k - length (vectors index)) (- 1)"
  by (simp_all add: flat_ip_search_def ranked_props(1) min.commute)

lemma take_ranked_decreasing:
  assumes "a < b" "b < length (take k (ranked index q))"
  shows "ip_scores index q ! (take k (ranked index q) ! b) \<le> ip_scores index q ! (take k (ranked index q) ! a)"
proof -
  have "sorted (map (\<lambda>i. - (ip_scores index q ! i)) (take k (ranked index q)))"
    using ranked_props(4)[of index q] by (simp add: take_map[symmetric] sorted_wrt_take)
  then have "map (\<lambda>i. - (ip_scores index q ! i)) (take k (ranked index q)) ! a
      \<le> map (\<lambda>i. - (ip_scores index q ! i)) (take k (ranked index q)) ! b"
    using assms by (intro sorted_nth_mono) simp_all
  with assms show ?thesis by simp
qed

lemma take_ranked_top:
  assumes "i < length (vectors index)" "i \<notin> set (take k (ranked index q))"
    and "j \<in> set (take k (ranked index q))"
  shows "ip_scores index q ! i \<le> ip_scores index q ! j"
proof -
  have "i \<in> set (ranked index q)"
    using assms(1) by (simp add: ranked_props(3))
  then have "i \<in> set (drop k (ranked index q))"
    using assms(2) by (metis Un_iff append_take_drop_id set_append)
  moreover have "sorted (map (\<lambda>i. - (ip_scores index q ! i)) (take k (ranked index q)) @
      map (\<lambda>i. - (ip_scores index q ! i)) (drop k (ranked index q)))"
    using ranked_props(4)[of index q] by (metis append_take_drop_id map_append)
  then have "\<forall>x\<in>set (take k (ranked index q)). \<forall>y\<in>set (drop k (ranked index q)).
      - (ip_scores index q ! x) \<le> - (ip_scores index q ! y)"
    unfolding sorted_append by simp
  ultimately have "- (ip_scores index q ! j) \<le> - (ip_scores index q ! i)"
    using assms(3) by blast
  then show ?thesis by simp
qed

lemma length_flat_ip_scores: "length (flat_ip_scores index q k) = k"
  by (simp add: flat_ip_scores_def ranked_props(1))

lemma flat_ip_nth:
  assumes "a < min k (length (vectors index))"
  shows "flat_ip_search index q k ! a = int (take k (ranked index q) ! a)"
    and "flat_ip_scores index q k ! a = ip_scores index q ! (take k (ranked index q) ! a)"
    and "take k (ranked index q) ! a < length (vectors index)"
proof -
  have l: "a < length (take k (ranked index q))"
    using assms by (simp add: ranked_props(1))
  then show "flat_ip_search index q k ! a = int (take k (ranked index q) ! a)"
    by (simp add: flat_ip_search_def nth_append)
  from l show "flat_ip_scores index q k ! a = ip_scores index q ! (take k (ranked index q) ! a)"
    by (simp add: flat_ip_scores_def nth_append)
  from l have "take k (ranked index q) ! a \<in> set (take k (ranked index q))"
    by (rule nth_mem)
  then have "take k (ranked index q) ! a \<in> set (ranked index q)"
    by (rule in_set_takeD)
  then show "take k (ranked index q) ! a < length (vectors index)"
    by (simp add: ranked_props(3))
qed

text \<open>
  Claim C5. \<^verbatim>\<open>build_faiss_index\<close> stores the L2-normalised rows of the embeddings.
  \<^verbatim>\<open>search_index\<close>, on an index so built and a query \<open>q\<close> of its dimension, gives for
  each of the first \<open>min(top_k, n)\<close> labels it returns a score, the one it prints beside
  the label, and this score is the inner product of the L2-normalised query with the
  L2-normalised embedding of that label: the cosine similarity of the embedding and the
  query as they were given, when neither is the zero vector. The labels are ranked by
  this score: the scores decrease along the result, and no embedding left out has a
  higher one.
\<close>

theorem index_scores_are_cosine:
  assumes "build_faiss_index embeddings = Inr index"
    and "length q = dimension index" and "0 < top_k"
  shows "vectors index = normalize_L2 embeddings \<and>
    (\<exists>labels printed. search_index index [q] top_k = Inr (labels, printed) \<and>
       length printed = top_k \<and> map fst printed = labels \<and>
       (\<forall>a. a < min top_k (length embeddings) \<longrightarrow>
          0 \<le> labels ! a \<and> nat (labels ! a) < length embeddings \<and>
          snd (printed ! a) =
            inner_product (normalize_row q) (normalize_row (embeddings ! nat (labels ! a))) \<and>
          (\<not> is_zero_vec q \<and> \<not> is_zero_vec (embeddings ! nat (labels ! a)) \<longrightarrow>
             snd (printed ! a) = cosine_similarity (embeddings ! nat (labels ! a)) q)) \<and>
       (\<forall>a b. a < b \<and> b < min top_k (length embeddings) \<longrightarrow>
          snd (printed ! b) \<le> snd (printed ! a)) \<and>
       (\<forall>i a. i < length embeddings \<and>
              int i \<notin> set (take (min top_k (length embeddings)) labels) \<and>
              a < min top_k (length embeddings) \<longrightarrow>
          inner_product (normalize_row q) (normalize_row (embeddings ! i)) \<le> snd (printed ! a) \<and>
          (\<not> is_zero_vec q \<and> \<not> is_zero_vec (embeddings ! i) \<longrightarrow>
             cosine_similarity (embeddings ! i) q \<le> snd (printed ! a))))"
proof -
  let ?q = "normalize_row q"
  let ?n = "length embeddings"
  let ?m = "min top_k ?n"
  let ?labels = "flat_ip_search index ?q top_k"
  let ?scores = "flat_ip_scores index ?q top_k"
  let ?printed = "zip ?labels ?scores"
  let ?hits = "take top_k (ranked index ?q)"
  have v: "vectors index = map normalize_row embeddings"
    using assms(1) by (rule build_faiss_index_vectors)
  then have n: "length (vectors index) = ?n" by simp
  have s: "search_index index [q] top_k = Inr (?labels, ?printed)"
    using assms(2,3) by (rule search_index_single)
  have len: "length ?labels = top_k" "length ?scores = top_k"
    by (simp_all add: length_flat_ip_search length_flat_ip_scores)
  then have lp: "length ?printed = top_k" and mf: "map fst ?printed = ?labels"
    by simp_all
  have sc: "ip_scores index ?q ! i = inner_product ?q (normalize_row (embeddings ! i))"
    if "i < ?n" for i
    using that by (simp add: ip_scores_def v)
  have at: "?labels ! a = int (?hits ! a)" "?hits ! a < ?n"
    "snd (?printed ! a) = inner_product ?q (normalize_row (embeddings ! (?hits ! a)))"
    if "a < ?m" for a
  proof -
    from that have a: "a < min top_k (length (vectors index))" by (simp add: n)
    from flat_ip_nth(1)[OF a] show "?labels ! a = int (?hits ! a)" .
    from flat_ip_nth(3)[OF a] show h: "?hits ! a < ?n" by (simp add: n)
    from that have "a < top_k" by simp
    then have "snd (?printed ! a) = ?scores ! a" using len by simp
    also have "\<dots> = ip_scores index ?q ! (?hits ! a)" by (rule flat_ip_nth(2)[OF a])
    finally show "snd (?printed ! a) = inner_product ?q (normalize_row (embeddings ! (?hits ! a)))"
      using h by (simp add: sc)
  qed
  have lh: "length ?hits = ?m"
    by (simp add: ranked_props(1) n)
  have tk: "take ?m ?labels = map int ?hits"
    using flat_ip_search_split(1)[of top_k index ?q] by (simp add: n)
  have each: "0 \<le> ?labels ! a \<and> nat (?labels ! a) < ?n \<and>
      snd (?printed ! a) = inner_product ?q (normalize_row (embeddings ! nat (?labels ! a))) \<and>
      (\<not> is_zero_vec q \<and> \<not> is_zero_vec (embeddings ! nat (?labels ! a)) \<longrightarrow>
         snd (?printed ! a) = cosine_similarity (embeddings ! nat (?labels ! a)) q)"
    if "a < ?m" for a
    using at[OF that] by (simp add: normalized_inner_product)
  have dec: "snd (?printed ! b) \<le> snd (?printed ! a)" if "a < b \<and> b < ?m" for a b
  proof -
    from that have ab: "a < ?m" "b < ?m" by simp_all
    have "ip_scores index ?q ! (?hits ! b) \<le> ip_scores index ?q ! (?hits ! a)"
      using that lh by (intro take_ranked_decreasing) simp_all
    with at(2,3)[OF ab(1)] at(2,3)[OF ab(2)] show ?thesis by (simp add: sc)
  qed
  have top: "inner_product ?q (normalize_row (embeddings ! i)) \<le> snd (?printed ! a) \<and>
      (\<not> is_zero_vec q \<and> \<not> is_zero_vec (embeddings ! i) \<longrightarrow>
         cosine_similarity (embeddings ! i) q \<le> snd (?printed ! a))"
    if "i < ?n \<and> int i \<notin> set (take ?m ?labels) \<and> a < ?m" for i a
  proof -
    from that have a: "a < ?m" and i: "i < ?n" by simp_all
    from that have "i \<notin> set ?hits" by (auto simp: tk)
    moreover from i have "i < length (vectors index)" by (simp add: n)
    moreover have "?hits ! a \<in> set ?hits"
      using a lh by (intro nth_mem) (simp only:)
    ultimately have "ip_scores index ?q ! i \<le> ip_scores index ?q ! (?hits ! a)"
      by (intro take_ranked_top)
    with at(2,3)[OF a] i have "inner_product ?q (normalize_row (embeddings ! i)) \<le> snd (?printed ! a)"
      by (simp add: sc)
    then show ?thesis
      using normalized_inner_product[of "embeddings ! i" q] by auto
  qed
  have "vectors index = normalize_L2 embeddings"
    by (simp add: v normalize_L2_def)
  moreover have "\<exists>labels printed. search_index index [q] top_k = Inr (labels, printed) \<and>
       length printed = top_k \<and> map fst printed = labels \<and>
       (\<forall>a. a < ?m \<longrightarrow>
          0 \<le> labels ! a \<and> nat (labels ! a) < ?n \<and>
          snd (printed ! a) =
            inner_product ?q (normalize_row (embeddings ! nat (labels ! a))) \<and>
          (\<not> is_zero_vec q \<and> \<not> is_zero_vec (embeddings ! nat (labels ! a)) \<longrightarrow>
             snd (printed ! a) = cosine_similarity (embeddings ! nat (labels ! a)) q)) \<and>
       (\<forall>a b. a < b \<and> b < ?m \<longrightarrow> snd (printed ! b) \<le> snd (printed ! a)) \<and>
       (\<forall>i a. i < ?n \<and> int i \<notin> set (take ?m labels) \<and> a < ?m \<longrightarrow>
          inner_product ?q (normalize_row (embeddings ! i)) \<le> snd (printed ! a) \<and>
          (\<not> is_zero_vec q \<and> \<not> is_zero_vec (embeddings ! i) \<longrightarrow>
             cosine_similarity (embeddings ! i) q \<le> snd (printed ! a)))"
  proof -
    from each have e: "\<forall>a. a < ?m \<longrightarrow>
          0 \<le> ?labels ! a \<and> nat (?labels ! a) < ?n \<and>
          snd (?printed ! a) =
            inner_product ?q (normalize_row (embeddings ! nat (?labels ! a))) \<and>
          (\<not> is_zero_vec q \<and> \<not> is_zero_vec (embeddings ! nat (?labels ! a)) \<longrightarrow>
             snd (?printed ! a) = cosine_similarity (embeddings ! nat (?labels ! a)) q)"
      by (intro allI impI)
    from dec have d: "\<forall>a b. a < b \<and> b < ?m \<longrightarrow> snd (?printed ! b) \<le> snd (?printed ! a)"
      by (intro allI impI)
    from top have t: "\<forall>i a. i < ?n \<and> int i \<notin> set (take ?m ?labels) \<and> a < ?m \<longrightarrow>
          inner_product ?q (normalize_row (embeddings ! i)) \<le> snd (?printed ! a) \<and>
          (\<not> is_zero_vec q \<and> \<not> is_zero_vec (embeddings ! i) \<longrightarrow>
             cosine_similarity (embeddings ! i) q \<le> snd (?printed ! a))"
      by (intro allI impI)
    show ?thesis
      apply (rule exI[of _ ?labels])
      apply (rule exI[of _ ?printed])
      by (intro conjI s lp mf e d t)
  qed
  ultimately show ?thesis by (rule conjI)
qed

theorem index_scores_are_cosine_witness:
  "build_faiss_index [[3, 4], [1, 0]] = Inr \<lparr>dimension = 2, vectors = [[3 / 5, 4 / 5], [1, 0]]\<rparr> \<and>
   length [4, 3 :: real] = 2 \<and> (0::nat) < 3 \<and>
   search_index \<lparr>dimension = 2, vectors = [[3 / 5, 4 / 5], [1, 0]]\<rparr> [[4, 3]] 3 =
     Inr ([0, 1, - 1], [(0, 24 / 25), (1, 4 / 5), (- 1, no_score)]) \<and>
   \<not> is_zero_vec [4, 3] \<and> \<not> is_zero_vec [3, 4] \<and> \<not> is_zero_vec [1, 0] \<and>
   cosine_similarity [3, 4] [4, 3] = 24 / 25 \<and>
   cosine_similarity [1, 0] [4, 3] = 4 / 5"
proof -
  have b: "build_faiss_index [[3, 4], [1, 0]] = Inr \<lparr>dimension = 2, vectors = [[3 / 5, 4 / 5], [1, 0]]\<rparr>"
    by (simp add: build_faiss_index_def normalize_L2_def normalize_row_def norm_L2sqr_def
        inner_product_def sqrt25)
  have h: "length [4, 3 :: real] = dimension \<lparr>dimension = 2, vectors = [[3 / 5, 4 / 5], [1, 0]]\<rparr>"
      "(0::nat) < 3"
    by simp_all
  have e: "search_index \<lparr>dimension = 2, vectors = [[3 / 5, 4 / 5], [1, 0]]\<rparr> [[4, 3]] 3 =
     Inr ([0, 1, - 1], [(0, 24 / 25), (1, 4 / 5), (- 1, no_score)])"
    by (simp add: search_index_def normalize_L2_def normalize_row_def norm_L2sqr_def
        inner_product_def flat_ip_search_def flat_ip_scores_def ranked_def ip_scores_def sqrt25
        upt_rec[of 0] eval_nat_numeral)
  have z: "\<not> is_zero_vec [4, 3]" "\<not> is_zero_vec [3, 4]" "\<not> is_zero_vec [1, 0]"
    by (simp_all add: is_zero_vec_def)
  from index_scores_are_cosine[OF b h, THEN conjunct2] obtain labels printed where
    l: "search_index \<lparr>dimension = 2, vectors = [[3 / 5, 4 / 5], [1, 0]]\<rparr> [[4, 3]] 3 = Inr (labels, printed)"
    and c: "\<forall>a. a < min 3 (length [[3, 4], [1, 0 :: real]]) \<longrightarrow>
      0 \<le> labels ! a \<and> nat (labels ! a) < length [[3, 4], [1, 0 :: real]] \<and>
      snd (printed ! a) =
        inner_product (normalize_row [4, 3]) (normalize_row ([[3, 4], [1, 0]] ! nat (labels ! a))) \<and>
      (\<not> is_zero_vec [4, 3] \<and> \<not> is_zero_vec ([[3, 4], [1, 0]] ! nat (labels ! a)) \<longrightarrow>
       snd (printed ! a) = cosine_similarity ([[3, 4], [1, 0]] ! nat (labels ! a)) [4, 3])"
    by (elim exE conjE) (rule that, assumption+)
  from l e have eq: "labels = [0, 1, - 1]" "printed = [(0, 24 / 25), (1, 4 / 5), (- 1, no_score)]"
    by simp_all
  from c[THEN spec, of 0] z have c0: "cosine_similarity [3, 4] [4, 3] = 24 / 25"
    by (simp add: eq)
  from c[THEN spec, of 1] z have c1: "cosine_similarity [1, 0] [4, 3] = 4 / 5"
    by (simp add: eq)
  show ?thesis
    by (intro conjI b e z c0 c1) simp_all
qed

text \<open>
  Claim C2, as the model has it. For an index built from \<open>n\<close> embeddings and a query
  of its dimension, \<^verbatim>\<open>search_index\<close> returns exactly \<open>top_k\<close> labels. The first
  \<open>min(top_k, n)\<close> are distinct positions of stored vectors, by decreasing score, and no
  stored vector left out scores higher than one of them; the score is the cosine
  similarity to the query for vectors that are not zero. The labels after them, when
  \<open>n < top_k\<close>, are \<open>-1\<close>.
\<close>

theorem search_index_top_k:
  assumes "build_faiss_index embeddings = Inr index" and "length q = dimension index"
    and "0 < top_k"
  shows "\<exists>labels printed. search_index index [q] top_k = Inr (labels, printed) \<and>
    length labels = top_k \<and>
    (\<forall>a. a < min top_k (length embeddings) \<longrightarrow>
       0 \<le> labels ! a \<and> labels ! a < int (length embeddings)) \<and>
    distinct (take (min top_k (length embeddings)) labels) \<and>
    (\<forall>a b. a < b \<and> b < min top_k (length embeddings) \<longrightarrow>
       ip_scores index (normalize_row q) ! nat (labels ! b)
         \<le> ip_scores index (normalize_row q) ! nat (labels ! a)) \<and>
    (\<forall>i a. i < length embeddings \<and> int i \<notin> set (take (min top_k (length embeddings)) labels) \<and>
       a < min top_k (length embeddings) \<longrightarrow>
       ip_scores index (normalize_row q) ! i
         \<le> ip_scores index (normalize_row q) ! nat (labels ! a)) \<and>
    (\<forall>a. min top_k (length embeddings) \<le> a \<and> a < top_k \<longrightarrow> labels ! a = - 1) \<and>
    (\<forall>i. i < length embeddings \<and> \<not> is_zero_vec (embeddings ! i) \<and> \<not> is_zero_vec q \<longrightarrow>
       ip_scores index (normalize_row q) ! i = cosine_similarity (embeddings ! i) q)"
proof -
  let ?q = "normalize_row q"
  let ?n = "length embeddings"
  let ?m = "min top_k ?n"
  let ?labels = "flat_ip_search index ?q top_k"
  let ?hits = "take top_k (ranked index ?q)"
  let ?sc = "\<lambda>i. ip_scores index ?q ! i"
  have v: "vectors index = map normalize_row embeddings"
    using assms(1) by (rule build_faiss_index_vectors)
  then have n: "length (vectors index) = ?n" by simp
  have s: "search_index index [q] top_k =
      Inr (?labels, zip ?labels (flat_ip_scores index ?q top_k))"
    using assms(2,3) by (rule search_index_single)
  have len: "length ?labels = top_k"
    by (simp add: flat_ip_search_def ranked_props(1))
  have tk: "take ?m ?labels = map int ?hits" and dr: "drop ?m ?labels = replicate (top_k - ?n) (- 1)"
    using flat_ip_search_split[of top_k index ?q] by (simp_all add: n)
  have lh: "length ?hits = ?m"
    by (simp add: ranked_props(1) n)
  have nth: "?labels ! a = int (?hits ! a)" if "a < ?m" for a
  proof -
    have "?labels ! a = take ?m ?labels ! a" using that by simp
    also have "\<dots> = int (?hits ! a)" using that lh by (simp add: tk)
    finally show ?thesis .
  qed
  have mem: "?hits ! a \<in> set ?hits" if "a < ?m" for a
    using that lh by (intro nth_mem) (simp only:)
  have range: "0 \<le> ?labels ! a \<and> ?labels ! a < int ?n" if "a < ?m" for a
  proof -
    have "?hits ! a \<in> set (ranked index ?q)"
      using mem[OF that] by (rule in_set_takeD)
    then have "?hits ! a < ?n" by (simp add: ranked_props(3) n)
    with nth[OF that] show ?thesis by simp
  qed
  have dist: "distinct (take ?m ?labels)"
    unfolding tk by (simp add: distinct_map ranked_props(2))
  have dec: "?sc (nat (?labels ! b)) \<le> ?sc (nat (?labels ! a))" if "a < b \<and> b < ?m" for a b
  proof -
    from that have "a < ?m" "b < ?m" by simp_all
    moreover have "?sc (?hits ! b) \<le> ?sc (?hits ! a)"
      using that lh by (intro take_ranked_decreasing) simp_all
    ultimately show ?thesis by (simp add: nth)
  qed
  have top: "?sc i \<le> ?sc (nat (?labels ! a))"
    if "i < ?n \<and> int i \<notin> set (take ?m ?labels) \<and> a < ?m" for i a
  proof -
    from that have "i \<notin> set ?hits" by (auto simp: tk)
    moreover from that have "i < length (vectors index)" by (simp add: n)
    ultimately have "?sc i \<le> ?sc (?hits ! a)"
      using mem[of a] that by (intro take_ranked_top) simp_all
    with that show ?thesis by (simp add: nth)
  qed
  have pad: "?labels ! a = - 1" if "?m \<le> a \<and> a < top_k" for a
  proof -
    from that have "?labels ! a = drop ?m ?labels ! (a - ?m)"
      using len by simp
    also have "\<dots> = - 1"
    proof -
      from that have "a - ?m < top_k - ?n" by (auto simp: min_def split: if_splits)
      then show ?thesis unfolding dr by (rule nth_replicate)
    qed
    finally show ?thesis .
  qed
  have cos: "?sc i = cosine_similarity (embeddings ! i) q"
    if "i < ?n \<and> \<not> is_zero_vec (embeddings ! i) \<and> \<not> is_zero_vec q" for i
    using that by (simp add: ip_scores_def v normalized_inner_product)
  show ?thesis
    using s len range dist dec top pad cos by blast
qed

theorem search_index_top_k_witness:
  "build_faiss_index [[3, 4], [1, 0]] = Inr \<lparr>dimension = 2, vectors = [[3 / 5, 4 / 5], [1, 0]]\<rparr> \<and>
   length [4, 3 :: real] = 2 \<and> (0::nat) < 3 \<and>
   (\<exists>labels printed.
      search_index \<lparr>dimension = 2, vectors = [[3 / 5, 4 / 5], [1, 0]]\<rparr> [[4, 3]] 3 = Inr (labels, printed) \<and>
      length labels = 3 \<and> 0 \<le> labels ! 0 \<and> labels ! 0 < 2 \<and> labels ! 2 = - 1) \<and>
   search_index \<lparr>dimension = 2, vectors = [[3 / 5, 4 / 5], [1, 0]]\<rparr> [[4, 3]] 3 =
     Inr ([0, 1, - 1], [(0, 24 / 25), (1, 4 / 5), (- 1, no_score)])"
proof -
  have b: "build_faiss_index [[3, 4], [1, 0]] = Inr \<lparr>dimension = 2, vectors = [[3 / 5, 4 / 5], [1, 0]]\<rparr>"
    by (simp add: build_faiss_index_def normalize_L2_def normalize_row_def norm_L2sqr_def
        inner_product_def sqrt25)
  have h: "length [4, 3 :: real] = dimension \<lparr>dimension = 2, vectors = [[3 / 5, 4 / 5], [1, 0]]\<rparr>"
      "(0::nat) < 3"
    by simp_all
  from search_index_top_k[OF b h] obtain labels printed where
    l: "search_index \<lparr>dimension = 2, vectors = [[3 / 5, 4 / 5], [1, 0]]\<rparr> [[4, 3]] 3 = Inr (labels, printed)"
      "length labels = 3"
      "\<And>a. a < min 3 (length [[3, 4], [1, 0 :: real]]) \<Longrightarrow> 0 \<le> labels ! a \<and> labels ! a < int (length [[3, 4], [1, 0 :: real]])"
      "\<And>a. min 3 (length [[3, 4], [1, 0 :: real]]) \<le> a \<and> a < 3 \<Longrightarrow> labels ! a = - 1"
    by blast
  have e: "search_index \<lparr>dimension = 2, vectors = [[3 / 5, 4 / 5], [1, 0]]\<rparr> [[4, 3]] 3 =
     Inr ([0, 1, - 1], [(0, 24 / 25), (1, 4 / 5), (- 1, no_score)])"
    by (simp add: search_index_def normalize_L2_def normalize_row_def norm_L2sqr_def
        inner_product_def flat_ip_search_def flat_ip_scores_def ranked_def ip_scores_def sqrt25
        upt_rec[of 0] eval_nat_numeral)
  from l(3)[of 0] l(4)[of 2] have "0 \<le> labels ! 0 \<and> labels ! 0 < 2 \<and> labels ! 2 = - 1"
    by simp
  with l(1,2) b e show ?thesis
    by (intro conjI exI[of _ labels] exI[of _ printed]) simp_all
qed

text \<open>
  Claim C2 as stated fails on an index of one vector searched with \<open>top_k = 3\<close>: two of
  the three values returned are \<open>-1\<close>, the index of no stored chunk.
\<close>

theorem search_index_padding_counterexample:
  "build_faiss_index [[1]] = Inr \<lparr>dimension = 1, vectors = [[1]]\<rparr> \<and>
   search_index \<lparr>dimension = 1, vectors = [[1]]\<rparr> [[1]] 3 =
     Inr ([0, - 1, - 1], [(0, 1), (- 1, no_score), (- 1, no_score)])"
  by (simp add: build_faiss_index_def search_index_def normalize_L2_def normalize_row_def
      norm_L2sqr_def inner_product_def flat_ip_search_def flat_ip_scores_def ranked_def
      ip_scores_def eval_nat_numeral)

section \<open>The response parser\<close>

































































end
